theory Spec2Isabelle
  imports Main
begin

section \<open>Values, errors and plugin classes of modules/scripts.py\<close>

text \<open>
  An \<open>error\<close> is an exception object that is an instance of Python's \<open>Exception\<close>, the
  class that the two handlers of the module (\<open>except Exception\<close>) catch. \<open>Raised msg\<close> is
  an exception raised by plugin or library code.
\<close>

datatype error = IndexError | TypeError | NotImplementedError | Raised string

type_synonym 'a result = "error + 'a"

text \<open>The values that travel in the argument vector of an invocation.\<close>

datatype val = IntV int | StrV string | NoneV

text \<open>JSON-serialisable values, as \<open>ui_restraints\<close> returns them.\<close>

datatype json = JNull | JBool bool | JStr string | JList "json list" | JDict "(string \<times> json) list"

text \<open>A control of the toolkit, as far as the module touches it.\<close>

record control =
  label :: string
  custom_script_source :: "string option"
  visible :: bool

text \<open>
  What the methods of an instance of a class do when called: a raised exception is \<open>Inl\<close>,
  a returned value \<open>Inr\<close>; Python's \<open>None\<close> is \<open>None\<close>. The result of \<open>show\<close> is kept as
  its truth value, the only way the module reads it.
\<close>

record ('p, 'r) methods =
  title :: "string option result"
  ui :: "bool \<Rightarrow> control list option result"
  ui_restraints :: "json result"
  show_py :: "bool \<Rightarrow> bool result"
  run :: "'p \<Rightarrow> val list \<Rightarrow> 'r option result"

text \<open>
  A class object: its name, the name of its metaclass (\<open>type(c)\<close>), its direct bases and
  the behaviour of its instances.
\<close>

datatype ('p, 'r) pyclass =
  PyClass (cname: string) (metaclass: string) (bases: "('p, 'r) pyclass list")
    (methods: "('p, 'r) methods")

text \<open>The class \<open>Script\<close> of the module (lines 12 to 57).\<close>

definition Script :: "('p, 'r) pyclass" where
  "Script = PyClass ''Script'' ''type'' []
     \<lparr> title = Inl NotImplementedError,
       ui = (\<lambda>is_img2img. Inr None),
       ui_restraints = Inr (JDict []),
       show_py = (\<lambda>is_img2img. Inr True),
       run = (\<lambda>p args. Inl NotImplementedError) \<rparr>"

text \<open>Python's \<open>issubclass\<close>: a class is a subclass of itself and of every class a base is a subclass of.\<close>

fun issubclass :: "('p, 'r) pyclass \<Rightarrow> ('p, 'r) pyclass \<Rightarrow> bool" where
  "issubclass (PyClass n m bs ms) d =
     (PyClass n m bs ms = d \<or> (\<exists>b \<in> set bs. issubclass b d))"

text \<open>A top-level binding of an executed module is a class or some other object.\<close>

datatype ('p, 'r) pyval = ClassV "('p, 'r) pyclass" | OtherV

section \<open>Discovery: load_scripts\<close>

text \<open>
  The file system and the interpreter, as \<open>load_scripts\<close> uses them: \<open>os.path.exists\<close>,
  \<open>os.listdir\<close>, \<open>os.path.isfile\<close>, reading a file, \<open>compile\<close>, and \<open>exec\<close> in a fresh
  module, which gives the items of the module's dictionary in insertion order.
\<close>

record ('p, 'r) env =
  exists :: "string \<Rightarrow> bool"
  listdir :: "string \<Rightarrow> string list result"
  isfile :: "string \<Rightarrow> bool"
  read_file :: "string \<Rightarrow> string result"
  compile :: "string \<Rightarrow> string \<Rightarrow> string result"
  exec :: "string \<Rightarrow> (string \<times> ('p, 'r) pyval) list result"

datatype log_entry = Line string | Trace error

text \<open>The two globals the module writes: \<open>scripts_data\<close> and the standard error stream.\<close>

record ('p, 'r) globals =
  scripts_data :: "(('p, 'r) pyclass \<times> string) list"
  stderr :: "log_entry list"

text \<open>\<open>os.path.join\<close> with two arguments, the second a file name, as on POSIX.\<close>

definition path_join :: "string \<Rightarrow> string \<Rightarrow> string" where
  "path_join basedir filename =
     (if basedir = [] \<or> last basedir = CHR ''/'' then basedir @ filename
      else basedir @ ''/'' @ filename)"

text \<open>Lines 82 to 84: the scan of the module's bindings.\<close>

fun scan_bindings ::
  "(string \<times> ('p, 'r) pyval) list \<Rightarrow> string \<Rightarrow> (('p, 'r) pyclass \<times> string) list" where
  "scan_bindings [] path = []"
| "scan_bindings ((key, ClassV script_class) # rest) path =
     (if metaclass script_class = ''type'' \<and> issubclass script_class Script
      then (script_class, path) # scan_bindings rest path
      else scan_bindings rest path)"
| "scan_bindings ((key, OtherV) # rest) path = scan_bindings rest path"

text \<open>Lines 74 to 80: the body of the \<open>try\<close> up to the scan.\<close>

definition load_module ::
  "('p, 'r) env \<Rightarrow> string \<Rightarrow> (string \<times> ('p, 'r) pyval) list result" where
  "load_module e path =
     (case read_file e path of
        Inl err \<Rightarrow> Inl err
      | Inr text \<Rightarrow>
          (case compile e text path of
             Inl err \<Rightarrow> Inl err
           | Inr compiled \<Rightarrow> exec e compiled))"

text \<open>Lines 68 to 88: one round of the loop over the directory listing.\<close>

definition load_file ::
  "('p, 'r) env \<Rightarrow> string \<Rightarrow> string \<Rightarrow> ('p, 'r) globals \<Rightarrow> ('p, 'r) globals" where
  "load_file e basedir filename g =
     (let path = path_join basedir filename in
      if \<not> isfile e path then g
      else
        (case load_module e path of
           Inr items \<Rightarrow> g\<lparr>scripts_data := scripts_data g @ scan_bindings items path\<rparr>
         | Inl err \<Rightarrow>
             g\<lparr>stderr := stderr g @ [Line (''Error loading script: '' @ filename), Trace err]\<rparr>))"

fun load_files ::
  "('p, 'r) env \<Rightarrow> string \<Rightarrow> string list \<Rightarrow> ('p, 'r) globals \<Rightarrow> ('p, 'r) globals" where
  "load_files e basedir [] g = g"
| "load_files e basedir (filename # rest) g = load_files e basedir rest (load_file e basedir filename g)"

text \<open>Lines 63 to 88. An exception of \<open>os.listdir\<close> is outside the \<open>try\<close> and leaves the function.\<close>

definition load_scripts ::
  "('p, 'r) env \<Rightarrow> string \<Rightarrow> ('p, 'r) globals \<Rightarrow> error option \<times> ('p, 'r) globals" where
  "load_scripts e basedir g =
     (if \<not> exists e basedir then (None, g)
      else
        (case listdir e basedir of
           Inl err \<Rightarrow> (Some err, g)
         | Inr names \<Rightarrow> (None, load_files e basedir names g)))"

section \<open>SafeInvoker: wrap_call\<close>

text \<open>
  Lines 91 to 99. The call \<open>func(*args, **kwargs)\<close> is given by its outcome; the handler
  writes two entries to the error stream and the function returns its \<open>default\<close> argument, here \<open>dflt\<close>.
\<close>

definition wrap_call ::
  "'a result \<Rightarrow> string \<Rightarrow> string \<Rightarrow> 'a \<Rightarrow> log_entry list \<Rightarrow> 'a \<times> log_entry list" where
  "wrap_call func filename funcname dflt err =
     (case func of
        Inr res \<Rightarrow> (res, err)
      | Inl exc \<Rightarrow>
          (dflt, err @ [Line (''Error calling: '' @ filename @ ''/'' @ funcname), Trace exc]))"

section \<open>JSON serialisation: json.dumps\<close>

text \<open>
  \<open>json.dumps\<close> with its default arguments: separators \<open>", "\<close> and \<open>": "\<close>, and every
  character outside the printable ASCII range escaped. A \<open>char\<close> stands for the code
  point of the same number.
\<close>

definition hexdigit :: "nat \<Rightarrow> char" where
  "hexdigit n = ''0123456789abcdef'' ! n"

definition escape_char :: "char \<Rightarrow> string" where
  "escape_char c =
     (let n = (of_char c :: nat) in
      if n = 34 then [CHR 0x5C, CHR 0x22]
      else if n = 92 then [CHR 0x5C, CHR 0x5C]
      else if n = 8 then [CHR 0x5C, CHR ''b'']
      else if n = 12 then [CHR 0x5C, CHR ''f'']
      else if n = 10 then [CHR 0x5C, CHR ''n'']
      else if n = 13 then [CHR 0x5C, CHR ''r'']
      else if n = 9 then [CHR 0x5C, CHR ''t'']
      else if 32 \<le> n \<and> n \<le> 126 then [c]
      else [CHR 0x5C, CHR ''u'', CHR ''0'', CHR ''0'', hexdigit (n div 16), hexdigit (n mod 16)])"

definition encode_str :: "string \<Rightarrow> string" where
  "encode_str s = [CHR 0x22] @ concat (map escape_char s) @ [CHR 0x22]"

fun join :: "string \<Rightarrow> string list \<Rightarrow> string" where
  "join sep [] = []"
| "join sep [x] = x"
| "join sep (x # y # ys) = x @ sep @ join sep (y # ys)"

fun dumps :: "json \<Rightarrow> string"
  and dumps_list :: "json list \<Rightarrow> string list"
  and dumps_items :: "(string \<times> json) list \<Rightarrow> string list" where
  "dumps JNull = ''null''"
| "dumps (JBool b) = (if b then ''true'' else ''false'')"
| "dumps (JStr s) = encode_str s"
| "dumps (JList xs) = ''['' @ join '', '' (dumps_list xs) @ '']''"
| "dumps (JDict kvs) = ''{'' @ join '', '' (dumps_items kvs) @ ''}''"
| "dumps_list [] = []"
| "dumps_list (x # xs) = dumps x # dumps_list xs"
| "dumps_items [] = []"
| "dumps_items ((k, v) # kvs) = (encode_str k @ '': '' @ dumps v) # dumps_items kvs"

section \<open>The session: ScriptRunner\<close>

text \<open>An instance of a plugin class, with the three attributes the module sets on it.\<close>

record ('p, 'r) script =
  cls :: "('p, 'r) pyclass"
  filename :: string
  args_from :: "nat option"
  args_to :: "nat option"

record ('p, 'r) script_runner =
  scripts :: "('p, 'r) script list"

text \<open>Lines 103 and 104: \<open>ScriptRunner()\<close>.\<close>

definition new_runner :: "('p, 'r) script_runner" where
  "new_runner = \<lparr> scripts = [] \<rparr>"

text \<open>The components of the list \<open>inputs\<close>.\<close>

datatype component =
    Dropdown (dlabel: string) (choices: "string list") (dvalue: string) (delem_id: string)
  | Ctl control
  | Textbox (tvalue: string) (telem_id: string) (tshow_label: bool) (tvisible: bool)

text \<open>
  Lines 108 and 109: \<open>script_class()\<close>, whose range attributes are still the class's \<open>None\<close>.
  The constructor is the one inherited from \<open>object\<close>, which returns.
\<close>

definition new_script :: "('p, 'r) pyclass \<Rightarrow> string \<Rightarrow> ('p, 'r) script" where
  "new_script script_class path =
     \<lparr> cls = script_class, filename = path, args_from = None, args_to = None \<rparr>"

text \<open>
  Lines 107 to 114. \<open>show\<close> is called directly: an exception it raises leaves
  \<open>setup_ui\<close>, with the instances appended so far still in \<open>self.scripts\<close>.
\<close>

fun setup_scripts ::
  "(('p, 'r) pyclass \<times> string) list \<Rightarrow> bool \<Rightarrow> ('p, 'r) script list
     \<Rightarrow> error option \<times> ('p, 'r) script list" where
  "setup_scripts [] is_img2img ss = (None, ss)"
| "setup_scripts ((script_class, path) # rest) is_img2img ss =
     (case show_py (methods script_class) is_img2img of
        Inl exc \<Rightarrow> (Some exc, ss)
      | Inr shown \<Rightarrow>
          if \<not> shown then setup_scripts rest is_img2img ss
          else setup_scripts rest is_img2img (ss @ [new_script script_class path]))"

text \<open>Line 116, one element: \<open>wrap_call(script.title, ...) or f"{script.filename} [error]"\<close>.\<close>

definition script_title :: "('p, 'r) script \<Rightarrow> log_entry list \<Rightarrow> string \<times> log_entry list" where
  "script_title s err =
     (let (res, err') = wrap_call (title (methods (cls s))) (filename s) ''title'' None err in
      (case res of
         None \<Rightarrow> filename s @ '' [error]''
       | Some t \<Rightarrow> if t = [] then filename s @ '' [error]'' else t,
       err'))"

fun script_titles :: "('p, 'r) script list \<Rightarrow> log_entry list \<Rightarrow> string list \<times> log_entry list" where
  "script_titles [] err = ([], err)"
| "script_titles (s # ss) err =
     (let (t, err1) = script_title s err;
          (ts, err2) = script_titles ss err1
      in (t # ts, err2))"

text \<open>\<open>os.path.basename\<close>, as on POSIX: what follows the last slash.\<close>

definition basename :: "string \<Rightarrow> string" where
  "basename path = rev (takeWhile (\<lambda>c. c \<noteq> CHR ''/'') (rev path))"

text \<open>
  Lines 123 to 137: the loop that asks every instance for its controls. A \<open>ui\<close> call
  that returns gives \<open>None\<close> or a list of controls.
\<close>

fun setup_controls ::
  "('p, 'r) script list \<Rightarrow> bool \<Rightarrow> component list \<Rightarrow> log_entry list
     \<Rightarrow> ('p, 'r) script list \<times> component list \<times> log_entry list" where
  "setup_controls [] is_img2img inputs err = ([], inputs, err)"
| "setup_controls (s # ss) is_img2img inputs err =
     (let s1 = s\<lparr>args_from := Some (length inputs), args_to := Some (length inputs)\<rparr>;
          (controls, err1) = wrap_call (ui (methods (cls s)) is_img2img) (filename s) ''ui'' None err
      in case controls of
           None \<Rightarrow>
             (let (ss', inputs', err') = setup_controls ss is_img2img inputs err1
              in (s1 # ss', inputs', err'))
         | Some cs \<Rightarrow>
             (let cs' = map (\<lambda>c. c\<lparr>custom_script_source := Some (basename (filename s)),
                                     visible := False\<rparr>) cs;
                  inputs1 = inputs @ map Ctl cs';
                  s2 = s1\<lparr>args_to := Some (length inputs1)\<rparr>;
                  (ss', inputs', err') = setup_controls ss is_img2img inputs1 err1
              in (s2 # ss', inputs', err')))"

text \<open>Lines 106 to 170, without the two event registrations, which return nothing.\<close>

definition setup_ui ::
  "('p, 'r) script_runner \<Rightarrow> bool \<Rightarrow> ('p, 'r) globals
     \<Rightarrow> component list result \<times> ('p, 'r) script_runner \<times> ('p, 'r) globals" where
  "setup_ui self is_img2img g =
     (case setup_scripts (scripts_data g) is_img2img (scripts self) of
        (Some exc, ss) \<Rightarrow> (Inl exc, self\<lparr>scripts := ss\<rparr>, g)
      | (None, ss) \<Rightarrow>
          (let (titles, err1) = script_titles ss (stderr g);
               id_prefix = (if is_img2img then ''img2img_'' else ''txt2img_'');
               dropdown = Dropdown ''Script'' (''None'' # titles) ''None'' (id_prefix @ ''scripts'');
               (ss', inputs, err2) = setup_controls ss is_img2img [dropdown] err1;
               script_restraints_json =
                 Textbox ''{}'' (id_prefix @ ''script_restraints_json'') False False
           in (Inr (inputs @ [script_restraints_json]), self\<lparr>scripts := ss'\<rparr>,
               g\<lparr>stderr := err2\<rparr>)))"

section \<open>The selector-change rule: select_script\<close>

datatype update = GrShow bool | TextboxUpdate string bool

text \<open>
  \<open>args_from <= i < args_to\<close>: a comparison with \<open>None\<close> raises TypeError, and the second
  comparison is made only when the first holds.
\<close>

definition in_range :: "nat option \<Rightarrow> nat option \<Rightarrow> nat \<Rightarrow> bool result" where
  "in_range lo hi i =
     (case lo of
        None \<Rightarrow> Inl TypeError
      | Some a \<Rightarrow>
          if a \<le> i then (case hi of None \<Rightarrow> Inl TypeError | Some b \<Rightarrow> Inr (i < b))
          else Inr False)"

text \<open>Line 153: the list comprehension over \<open>range(len(inputs)-1)\<close>.\<close>

fun gr_shows :: "nat option \<Rightarrow> nat option \<Rightarrow> nat list \<Rightarrow> update list result" where
  "gr_shows lo hi [] = Inr []"
| "gr_shows lo hi (i # rest) =
     (case (if i = 0 then Inr True else in_range lo hi i) of
        Inl exc \<Rightarrow> Inl exc
      | Inr v \<Rightarrow>
          (case gr_shows lo hi rest of
             Inl exc \<Rightarrow> Inl exc
           | Inr us \<Rightarrow> Inr (GrShow v # us)))"

text \<open>Lines 142 to 155, a closure over \<open>self\<close> and \<open>inputs\<close>.\<close>

definition select_script ::
  "('p, 'r) script_runner \<Rightarrow> component list \<Rightarrow> int \<Rightarrow> update list result" where
  "select_script self inputs script_index =
     (let (script, lo, hi) =
            (if 0 < script_index \<and> script_index \<le> int (length (scripts self))
             then (let s = scripts self ! nat (script_index - 1)
                   in (Some s, args_from s, args_to s))
             else (None, Some 0, Some 0))
      in case gr_shows lo hi [0 ..< length inputs - 1] of
           Inl exc \<Rightarrow> Inl exc
         | Inr shows \<Rightarrow>
             (case (case script of
                      Some s \<Rightarrow> ui_restraints (methods (cls s))
                    | None \<Rightarrow> Inr (JDict [])) of
                Inl exc \<Rightarrow> Inl exc
              | Inr restraints \<Rightarrow> Inr (shows @ [TextboxUpdate (dumps restraints) False])))"

section \<open>Dispatch: ScriptRunner.run\<close>

text \<open>Indexing a list with an integer: a negative index counts from the end.\<close>

definition py_index :: "'a list \<Rightarrow> int \<Rightarrow> nat result" where
  "py_index xs i =
     (let n = int (length xs); j = (if i < 0 then n + i else i)
      in if 0 \<le> j \<and> j < n then Inr (nat j) else Inl IndexError)"

text \<open>The slice \<open>xs[lo:hi]\<close> with bounds that are \<open>None\<close> or not negative.\<close>

definition py_slice :: "'a list \<Rightarrow> nat option \<Rightarrow> nat option \<Rightarrow> 'a list" where
  "py_slice xs lo hi =
     (let a = (case lo of None \<Rightarrow> 0 | Some a \<Rightarrow> a)
      in case hi of None \<Rightarrow> drop a xs | Some b \<Rightarrow> take (b - a) (drop a xs))"

text \<open>
  What dispatch does to the rest of the process: the calls of a plugin's \<open>run\<close> (the
  position of the instance in \<open>self.scripts\<close>, the processing context and the arguments)
  and the number of calls of \<open>shared.total_tqdm.clear()\<close>.
\<close>

record 'p host =
  run_calls :: "(nat \<times> 'p \<times> val list) list"
  tqdm_clears :: nat

text \<open>
  Lines 172 to 188. The test \<open>script is None\<close> of line 180 never holds, since
  \<open>self.scripts\<close> holds instances only.
\<close>

definition runner_run ::
  "('p, 'r) script_runner \<Rightarrow> 'p \<Rightarrow> val list \<Rightarrow> 'p host \<Rightarrow> 'r option result \<times> 'p host" where
  "runner_run self p args h =
     (case args of
        [] \<Rightarrow> (Inl IndexError, h)
      | IntV script_index # _ \<Rightarrow>
          if script_index = 0 then (Inr None, h)
          else
            (case py_index (scripts self) (script_index - 1) of
               Inl exc \<Rightarrow> (Inl exc, h)
             | Inr k \<Rightarrow>
                 (let script = scripts self ! k;
                      script_args = py_slice args (args_from script) (args_to script);
                      h1 = h\<lparr>run_calls := run_calls h @ [(k, p, script_args)]\<rparr>
                  in case run (methods (cls script)) p script_args of
                       Inl exc \<Rightarrow> (Inl exc, h1)
                     | Inr processed \<Rightarrow> (Inr processed, h1\<lparr>tqdm_clears := tqdm_clears h1 + 1\<rparr>)))
      | _ # _ \<Rightarrow> (Inl TypeError, h))"

text \<open>Line 60 and an error stream with nothing written: the globals when the module has been imported.\<close>

definition initial_globals :: "('p, 'r) globals" where
  "initial_globals = \<lparr> scripts_data = [], stderr = [] \<rparr>"

section \<open>Notions the properties are stated with\<close>

text \<open>
  The number of controls an instance contributes to the argument vector: the length of
  what its \<open>ui\<close> call returns, and none when the call raises or returns \<open>None\<close>.
\<close>

definition n_controls :: "bool \<Rightarrow> ('p, 'r) script \<Rightarrow> nat" where
  "n_controls is_img2img s =
     (case ui (methods (cls s)) is_img2img of
        Inr (Some cs) \<Rightarrow> length cs
      | _ \<Rightarrow> 0)"

text \<open>
  The title of an instance in the choice list of the selector.
\<close>

definition display_title :: "('p, 'r) script \<Rightarrow> string" where
  "display_title s = fst (script_title s [])"

text \<open>
  The registry entry an instance was made from.
\<close>

definition descriptor :: "('p, 'r) script \<Rightarrow> ('p, 'r) pyclass \<times> string" where
  "descriptor s = (cls s, filename s)"

text \<open>
  Whether the \<open>show\<close> call of a registry entry returns a true value.
\<close>

definition shown :: "bool \<Rightarrow> ('p, 'r) pyclass \<times> string \<Rightarrow> bool" where
  "shown is_img2img d = (show_py (methods (fst d)) is_img2img = Inr True)"

section \<open>Example plugins and an example directory\<close>

text \<open>A plugin with two controls and a restraint on the sampling methods.\<close>

definition demo_controls :: "control list" where
  "demo_controls =
     [\<lparr> label = ''Steps'', custom_script_source = None, visible = True \<rparr>,
      \<lparr> label = ''Scale'', custom_script_source = None, visible = True \<rparr>]"

definition demo_plugin :: "(string, string) pyclass" where
  "demo_plugin = PyClass ''Plugin'' ''type'' [Script]
     \<lparr> title = Inr (Some ''Demo''),
       ui = (\<lambda>is_img2img. Inr (Some demo_controls)),
       ui_restraints = Inr (JDict [(''methods'', JList [JStr ''Euler'', JStr ''DDIM''])]),
       show_py = (\<lambda>is_img2img. Inr True),
       run = (\<lambda>p args. Inr (Some (p @ '' processed''))) \<rparr>"

text \<open>
  A directory of two files: \<open>bad.py\<close> does not compile, \<open>good.py\<close> binds the class
  \<open>Script\<close> and a plugin class.
\<close>

definition demo_env :: "(string, string) env" where
  "demo_env =
     \<lparr> exists = (\<lambda>d. d = ''scripts''),
       listdir = (\<lambda>d. Inr [''bad.py'', ''good.py'']),
       isfile = (\<lambda>p. True),
       read_file = (\<lambda>p. Inr p),
       compile = (\<lambda>text p. if text = ''scripts/bad.py'' then Inl (Raised ''SyntaxError'') else Inr text),
       exec = (\<lambda>compiled. Inr [(''__name__'', OtherV), (''Script'', ClassV Script),
                                  (''Plugin'', ClassV demo_plugin)]) \<rparr>"

text \<open>
  A plugin that is offered on the img2img tab only.
\<close>

definition upscale_plugin :: "(string, string) pyclass" where
  "upscale_plugin = PyClass ''Upscale'' ''type'' [Script]
     \<lparr> title = Inr (Some ''Upscale''),
       ui = (\<lambda>is_img2img. Inr (Some [\<lparr> label = ''Factor'', custom_script_source = None,
                                         visible = True \<rparr>])),
       ui_restraints = Inr (JDict []),
       show_py = (\<lambda>is_img2img. Inr is_img2img),
       run = (\<lambda>p args. Inr None) \<rparr>"

text \<open>
  A plugin whose \<open>title\<close> and \<open>ui\<close> raise.
\<close>

definition broken_plugin :: "(string, string) pyclass" where
  "broken_plugin = PyClass ''Broken'' ''type'' [Script]
     \<lparr> title = Inl (Raised ''title failed''),
       ui = (\<lambda>is_img2img. Inl (Raised ''ui failed'')),
       ui_restraints = Inr (JDict []),
       show_py = (\<lambda>is_img2img. Inr True),
       run = (\<lambda>p args. Inr None) \<rparr>"

text \<open>
  A registry of four entries, and the session that \<open>setup_ui\<close> builds from it for the
  img2img tab.
\<close>

definition demo_globals :: "(string, string) globals" where
  "demo_globals =
     \<lparr> scripts_data = [(demo_plugin, ''scripts/good.py''), (upscale_plugin, ''scripts/upscale.py''),
                       (broken_plugin, ''scripts/broken.py''), (Script, ''scripts/good.py'')],
       stderr = [] \<rparr>"

definition demo_inputs :: "component list" where
  "demo_inputs =
     [Dropdown ''Script''
        [''None'', ''Demo'', ''Upscale'', ''scripts/broken.py [error]'', ''scripts/good.py [error]'']
        ''None'' ''img2img_scripts'',
      Ctl \<lparr> label = ''Steps'', custom_script_source = Some ''good.py'', visible = False \<rparr>,
      Ctl \<lparr> label = ''Scale'', custom_script_source = Some ''good.py'', visible = False \<rparr>,
      Ctl \<lparr> label = ''Factor'', custom_script_source = Some ''upscale.py'', visible = False \<rparr>,
      Textbox ''{}'' ''img2img_script_restraints_json'' False False]"

definition demo_session :: "(string, string) script_runner" where
  "demo_session =
     \<lparr> scripts =
         [\<lparr> cls = demo_plugin, filename = ''scripts/good.py'', args_from = Some 1, args_to = Some 3 \<rparr>,
          \<lparr> cls = upscale_plugin, filename = ''scripts/upscale.py'', args_from = Some 3, args_to = Some 4 \<rparr>,
          \<lparr> cls = broken_plugin, filename = ''scripts/broken.py'', args_from = Some 4, args_to = Some 4 \<rparr>,
          \<lparr> cls = Script, filename = ''scripts/good.py'', args_from = Some 4, args_to = Some 4 \<rparr>] \<rparr>"

definition demo_stderr :: "log_entry list" where
  "demo_stderr =
     [Line ''Error calling: scripts/broken.py/title'', Trace (Raised ''title failed''),
      Line ''Error calling: scripts/good.py/title'', Trace NotImplementedError,
      Line ''Error calling: scripts/broken.py/ui'', Trace (Raised ''ui failed'')]"

text \<open>
  A plugin whose \<open>title\<close> returns the empty string, and one whose \<open>show\<close> raises.
\<close>

definition untitled_plugin :: "(string, string) pyclass" where
  "untitled_plugin = PyClass ''Untitled'' ''type'' [Script]
     \<lparr> title = Inr (Some []),
       ui = (\<lambda>is_img2img. Inr None),
       ui_restraints = Inr (JDict []),
       show_py = (\<lambda>is_img2img. Inr True),
       run = (\<lambda>p args. Inr None) \<rparr>"

definition raising_show_plugin :: "(string, string) pyclass" where
  "raising_show_plugin = PyClass ''Raising'' ''type'' [Script]
     \<lparr> title = Inr (Some ''Raising''),
       ui = (\<lambda>is_img2img. Inr None),
       ui_restraints = Inr (JDict []),
       show_py = (\<lambda>is_img2img. Inl (Raised ''show failed'')),
       run = (\<lambda>p args. Inr None) \<rparr>"

definition untitled_globals :: "(string, string) globals" where
  "untitled_globals = \<lparr> scripts_data = [(untitled_plugin, ''scripts/untitled.py'')], stderr = [] \<rparr>"

definition raising_globals :: "(string, string) globals" where
  "raising_globals =
     \<lparr> scripts_data = [(demo_plugin, ''scripts/good.py''), (raising_show_plugin, ''scripts/raising.py''),
                       (upscale_plugin, ''scripts/upscale.py'')],
       stderr = [] \<rparr>"

text \<open>
  An argument vector for the example session, by its selector value, and a host in
  which no plugin has run.
\<close>

definition demo_args :: "int \<Rightarrow> val list" where
  "demo_args i = [IntV i, StrV ''20'', StrV ''7.5'', StrV ''2'', StrV ''{}'']"

definition demo_host :: "string host" where
  "demo_host = \<lparr> run_calls = [], tqdm_clears = 0 \<rparr>"

text \<open>
  What a second \<open>setup_ui\<close> for the img2img tab on the runner of the example session
  returns and leaves behind.
\<close>

definition demo_rebuilt_inputs :: "component list" where
  "demo_rebuilt_inputs =
     [Dropdown ''Script''
        [''None'', ''Demo'', ''Upscale'', ''scripts/broken.py [error]'', ''scripts/good.py [error]'',
         ''Demo'', ''Upscale'', ''scripts/broken.py [error]'', ''scripts/good.py [error]'']
        ''None'' ''img2img_scripts'',
      Ctl \<lparr> label = ''Steps'', custom_script_source = Some ''good.py'', visible = False \<rparr>,
      Ctl \<lparr> label = ''Scale'', custom_script_source = Some ''good.py'', visible = False \<rparr>,
      Ctl \<lparr> label = ''Factor'', custom_script_source = Some ''upscale.py'', visible = False \<rparr>,
      Ctl \<lparr> label = ''Steps'', custom_script_source = Some ''good.py'', visible = False \<rparr>,
      Ctl \<lparr> label = ''Scale'', custom_script_source = Some ''good.py'', visible = False \<rparr>,
      Ctl \<lparr> label = ''Factor'', custom_script_source = Some ''upscale.py'', visible = False \<rparr>,
      Textbox ''{}'' ''img2img_script_restraints_json'' False False]"

definition demo_rebuilt_session :: "(string, string) script_runner" where
  "demo_rebuilt_session =
     \<lparr> scripts =
         [\<lparr> cls = demo_plugin, filename = ''scripts/good.py'', args_from = Some 1, args_to = Some 3 \<rparr>,
          \<lparr> cls = upscale_plugin, filename = ''scripts/upscale.py'', args_from = Some 3, args_to = Some 4 \<rparr>,
          \<lparr> cls = broken_plugin, filename = ''scripts/broken.py'', args_from = Some 4, args_to = Some 4 \<rparr>,
          \<lparr> cls = Script, filename = ''scripts/good.py'', args_from = Some 4, args_to = Some 4 \<rparr>,
          \<lparr> cls = demo_plugin, filename = ''scripts/good.py'', args_from = Some 4, args_to = Some 6 \<rparr>,
          \<lparr> cls = upscale_plugin, filename = ''scripts/upscale.py'', args_from = Some 6, args_to = Some 7 \<rparr>,
          \<lparr> cls = broken_plugin, filename = ''scripts/broken.py'', args_from = Some 7, args_to = Some 7 \<rparr>,
          \<lparr> cls = Script, filename = ''scripts/good.py'', args_from = Some 7, args_to = Some 7 \<rparr>] \<rparr>"

definition demo_rebuilt_stderr :: "log_entry list" where
  "demo_rebuilt_stderr =
     demo_stderr @
     [Line ''Error calling: scripts/broken.py/title'', Trace (Raised ''title failed''),
      Line ''Error calling: scripts/good.py/title'', Trace NotImplementedError,
      Line ''Error calling: scripts/broken.py/title'', Trace (Raised ''title failed''),
      Line ''Error calling: scripts/good.py/title'', Trace NotImplementedError,
      Line ''Error calling: scripts/broken.py/ui'', Trace (Raised ''ui failed''),
      Line ''Error calling: scripts/broken.py/ui'', Trace (Raised ''ui failed'')]"

section \<open>Properties of discovery\<close>

lemma issubclass_refl: "issubclass c c"
  by (cases c) simp

lemma metaclass_Script: "metaclass Script = ''type''"
  by (simp add: Script_def)

lemma load_file_scripts_data:
  "scripts_data (load_file e basedir name g) =
     scripts_data g @ scripts_data (load_file e basedir name initial_globals)"
  by (simp add: load_file_def initial_globals_def Let_def split: sum.splits)

lemma load_file_stderr:
  "stderr (load_file e basedir name g) =
     stderr g @ stderr (load_file e basedir name initial_globals)"
  by (simp add: load_file_def initial_globals_def Let_def split: sum.splits)

lemma load_files_scripts_data:
  "scripts_data (load_files e basedir names g) =
     scripts_data g @ scripts_data (load_files e basedir names initial_globals)"
proof (induction names arbitrary: g)
  case Nil
  show ?case by (simp add: initial_globals_def)
next
  case (Cons n ns)
  have "scripts_data (load_files e basedir (n # ns) g) =
        scripts_data (load_file e basedir n g) @ scripts_data (load_files e basedir ns initial_globals)"
    using Cons.IH [of "load_file e basedir n g"] by simp
  also have "\<dots> = scripts_data g @ scripts_data (load_file e basedir n initial_globals)
        @ scripts_data (load_files e basedir ns initial_globals)"
    using load_file_scripts_data [of e basedir n g] by simp
  also have "\<dots> = scripts_data g @ scripts_data (load_files e basedir (n # ns) initial_globals)"
    using Cons.IH [of "load_file e basedir n initial_globals"] by simp
  finally show ?case .
qed

lemma load_files_stderr:
  "stderr (load_files e basedir names g) =
     stderr g @ stderr (load_files e basedir names initial_globals)"
proof (induction names arbitrary: g)
  case Nil
  show ?case by (simp add: initial_globals_def)
next
  case (Cons n ns)
  have "stderr (load_files e basedir (n # ns) g) =
        stderr (load_file e basedir n g) @ stderr (load_files e basedir ns initial_globals)"
    using Cons.IH [of "load_file e basedir n g"] by simp
  also have "\<dots> = stderr g @ stderr (load_file e basedir n initial_globals)
        @ stderr (load_files e basedir ns initial_globals)"
    using load_file_stderr [of e basedir n g] by simp
  also have "\<dots> = stderr g @ stderr (load_files e basedir (n # ns) initial_globals)"
    using Cons.IH [of "load_file e basedir n initial_globals"] by simp
  finally show ?case .
qed

lemma load_files_append:
  "load_files e basedir (xs @ ys) g = load_files e basedir ys (load_files e basedir xs g)"
  by (induction xs arbitrary: g) simp_all

lemma load_module_Inl_iff:
  "load_module e path = Inl err \<longleftrightarrow>
     read_file e path = Inl err
     \<or> (\<exists>text. read_file e path = Inr text \<and> compile e text path = Inl err)
     \<or> (\<exists>text compiled. read_file e path = Inr text \<and> compile e text path = Inr compiled
          \<and> exec e compiled = Inl err)"
  by (auto simp: load_module_def split: sum.splits)

lemma scan_bindings_mem:
  "(key, ClassV c) \<in> set items \<Longrightarrow> metaclass c = ''type'' \<Longrightarrow> issubclass c Script
     \<Longrightarrow> (c, path) \<in> set (scan_bindings items path)"
  by (induction items path rule: scan_bindings.induct) auto

text \<open>
  Claim C4. In a scan of a directory, a regular file that cannot be read, does not
  compile or raises while it is executed adds no descriptor, writes its file name and
  the trace of its exception to the error stream, and the files before and after it add
  the descriptors and the log entries they add on their own.
\<close>

theorem failing_file_is_isolated:
  assumes "exists e basedir" and "listdir e basedir = Inr (pre @ name # post)"
    and "isfile e (path_join basedir name)"
    and "read_file e (path_join basedir name) = Inl err
         \<or> (\<exists>text. read_file e (path_join basedir name) = Inr text
               \<and> compile e text (path_join basedir name) = Inl err)
         \<or> (\<exists>text compiled. read_file e (path_join basedir name) = Inr text
               \<and> compile e text (path_join basedir name) = Inr compiled
               \<and> exec e compiled = Inl err)"
  shows "\<exists>g'. load_scripts e basedir g = (None, g')
           \<and> scripts_data g' = scripts_data g
                 @ scripts_data (load_files e basedir pre initial_globals)
                 @ scripts_data (load_files e basedir post initial_globals)
           \<and> stderr g' = stderr g
                 @ stderr (load_files e basedir pre initial_globals)
                 @ [Line (''Error loading script: '' @ name), Trace err]
                 @ stderr (load_files e basedir post initial_globals)"
proof -
  have fails: "load_module e (path_join basedir name) = Inl err"
    using assms(4) by (simp add: load_module_Inl_iff)
  let ?g1 = "load_files e basedir pre g"
  have one: "load_file e basedir name ?g1 =
      ?g1\<lparr>stderr := stderr ?g1 @ [Line (''Error loading script: '' @ name), Trace err]\<rparr>"
    using assms(3) fails by (simp add: load_file_def)
  let ?g2 = "load_file e basedir name ?g1"
  have all: "load_files e basedir (pre @ name # post) g = load_files e basedir post ?g2"
    by (simp add: load_files_append)
  have d: "scripts_data (load_files e basedir post ?g2) =
      scripts_data g @ scripts_data (load_files e basedir pre initial_globals)
        @ scripts_data (load_files e basedir post initial_globals)"
    using load_files_scripts_data [of e basedir post ?g2]
      load_files_scripts_data [of e basedir pre g] one by simp
  have l: "stderr (load_files e basedir post ?g2) =
      stderr g @ stderr (load_files e basedir pre initial_globals)
        @ [Line (''Error loading script: '' @ name), Trace err]
        @ stderr (load_files e basedir post initial_globals)"
    using load_files_stderr [of e basedir post ?g2]
      load_files_stderr [of e basedir pre g] one by simp
  have "load_scripts e basedir g = (None, load_files e basedir post ?g2)"
    using assms(1,2) all by (simp add: load_scripts_def)
  with d l show ?thesis by simp
qed

lemma demo_good_scan:
  "scripts_data (load_files demo_env ''scripts'' [''good.py''] initial_globals) =
     [(Script, ''scripts/good.py''), (demo_plugin, ''scripts/good.py'')]"
  by (simp add: load_file_def load_module_def demo_env_def path_join_def initial_globals_def
      demo_plugin_def issubclass_refl metaclass_Script Let_def)

theorem failing_file_is_isolated_witness:
  "\<exists>g'. load_scripts demo_env ''scripts'' initial_globals = (None, g')
     \<and> scripts_data g' = [(Script, ''scripts/good.py''), (demo_plugin, ''scripts/good.py'')]
     \<and> stderr g' = [Line ''Error loading script: bad.py'', Trace (Raised ''SyntaxError'')]"
proof -
  have 1: "exists demo_env ''scripts''" by (simp add: demo_env_def)
  have 2: "listdir demo_env ''scripts'' = Inr ([] @ ''bad.py'' # [''good.py''])"
    by (simp add: demo_env_def)
  have 3: "isfile demo_env (path_join ''scripts'' ''bad.py'')" by (simp add: demo_env_def)
  have 4: "read_file demo_env (path_join ''scripts'' ''bad.py'') = Inl (Raised ''SyntaxError'')
         \<or> (\<exists>text. read_file demo_env (path_join ''scripts'' ''bad.py'') = Inr text
               \<and> compile demo_env text (path_join ''scripts'' ''bad.py'') = Inl (Raised ''SyntaxError''))
         \<or> (\<exists>text compiled. read_file demo_env (path_join ''scripts'' ''bad.py'') = Inr text
               \<and> compile demo_env text (path_join ''scripts'' ''bad.py'') = Inr compiled
               \<and> exec demo_env compiled = Inl (Raised ''SyntaxError''))"
    by (simp add: demo_env_def path_join_def)
  have 5: "stderr (load_files demo_env ''scripts'' [''good.py''] initial_globals) = []"
    by (simp add: load_file_def load_module_def demo_env_def path_join_def initial_globals_def Let_def)
  show ?thesis
    using failing_file_is_isolated [OF 1 2 3 4, of initial_globals] demo_good_scan 5
    by (simp add: initial_globals_def)
qed

lemma load_files_mem:
  "name \<in> set names \<Longrightarrow> d \<in> set (scripts_data (load_file e basedir name initial_globals))
     \<Longrightarrow> d \<in> set (scripts_data (load_files e basedir names g))"
proof -
  assume "name \<in> set names" and d: "d \<in> set (scripts_data (load_file e basedir name initial_globals))"
  then obtain pre post where names: "names = pre @ name # post"
    by (auto simp: in_set_conv_decomp)
  let ?g1 = "load_files e basedir pre g"
  have "scripts_data (load_files e basedir names g) =
      scripts_data (load_file e basedir name ?g1) @ scripts_data (load_files e basedir post initial_globals)"
    using load_files_scripts_data [of e basedir post "load_file e basedir name ?g1"]
    by (simp add: names load_files_append)
  moreover have "d \<in> set (scripts_data (load_file e basedir name ?g1))"
    using load_file_scripts_data [of e basedir name ?g1] d by simp
  ultimately show ?thesis by simp
qed

text \<open>
  Claim C10. The class test of discovery is reflexive: a top-level binding of a scanned
  file whose value is the class \<open>Script\<close> itself is appended to the registry with the
  file's path.
\<close>

theorem base_class_is_registered:
  assumes "exists e basedir" and "listdir e basedir = Inr names" and "name \<in> set names"
    and "isfile e (path_join basedir name)"
    and "load_module e (path_join basedir name) = Inr items"
    and "(key, ClassV Script) \<in> set items"
  shows "issubclass Script Script
         \<and> (Script, path_join basedir name) \<in> set (scripts_data (snd (load_scripts e basedir g)))"
proof -
  have "(Script, path_join basedir name) \<in> set (scan_bindings items (path_join basedir name))"
    using assms(6) by (rule scan_bindings_mem) (simp_all add: issubclass_refl Script_def)
  then have "(Script, path_join basedir name)
      \<in> set (scripts_data (load_file e basedir name initial_globals))"
    using assms(4,5) by (simp add: load_file_def initial_globals_def)
  with assms(3) have "(Script, path_join basedir name)
      \<in> set (scripts_data (load_files e basedir names g))"
    by (rule load_files_mem)
  then show ?thesis using assms(1,2) by (simp add: load_scripts_def issubclass_refl)
qed

theorem base_class_is_registered_witness:
  "issubclass (Script :: (string, string) pyclass) Script
   \<and> (Script, ''scripts/good.py'')
       \<in> set (scripts_data (snd (load_scripts demo_env ''scripts'' initial_globals)))"
proof -
  have 1: "exists demo_env ''scripts''" by (simp add: demo_env_def)
  have 2: "listdir demo_env ''scripts'' = Inr [''bad.py'', ''good.py'']"
    by (simp add: demo_env_def)
  have 3: "''good.py'' \<in> set [''bad.py'', ''good.py'']" by simp
  have 4: "isfile demo_env (path_join ''scripts'' ''good.py'')" by (simp add: demo_env_def)
  have 5: "load_module demo_env (path_join ''scripts'' ''good.py'') =
      Inr [(''__name__'', OtherV), (''Script'', ClassV Script), (''Plugin'', ClassV demo_plugin)]"
    by (simp add: load_module_def demo_env_def path_join_def)
  have 6: "(''Script'', ClassV Script)
      \<in> set [(''__name__'', OtherV), (''Script'', ClassV Script), (''Plugin'', ClassV (demo_plugin))]"
    by simp
  show ?thesis
    using base_class_is_registered [OF 1 2 3 4 5 6, of initial_globals]
    by (simp add: path_join_def)
qed

section \<open>Properties of the session build\<close>

lemma setup_scripts_None:
  "setup_scripts reg b ss = (None, ss') \<Longrightarrow>
     ss' = ss @ map (\<lambda>(c, p). new_script c p)
                  (filter (\<lambda>(c, p). show_py (methods c) b = Inr True) reg)"
proof (induction reg arbitrary: ss)
  case Nil
  then show ?case by simp
next
  case (Cons d reg)
  obtain c p where d: "d = (c, p)" by (cases d)
  show ?case
  proof (cases "show_py (methods c) b")
    case (Inl exc)
    with Cons.prems d show ?thesis by simp
  next
    case (Inr shown)
    show ?thesis
    proof (cases shown)
      case True
      with Cons.prems d Inr have "setup_scripts reg b (ss @ [new_script c p]) = (None, ss')"
        by simp
      from Cons.IH [OF this] d Inr True show ?thesis by simp
    next
      case False
      with Cons.prems d Inr have "setup_scripts reg b ss = (None, ss')" by simp
      from Cons.IH [OF this] d Inr False show ?thesis by simp
    qed
  qed
qed

lemma setup_scripts_total:
  "\<forall>(c, p) \<in> set reg. \<not> isl (show_py (methods c) b) \<Longrightarrow> fst (setup_scripts reg b ss) = None"
proof (induction reg arbitrary: ss)
  case Nil
  then show ?case by simp
next
  case (Cons d reg)
  obtain c p where d: "d = (c, p)" by (cases d)
  from Cons.prems d obtain shown where s: "show_py (methods c) b = Inr shown"
    by (cases "show_py (methods c) b") auto
  from Cons.prems have rest: "\<forall>(c, p) \<in> set reg. \<not> isl (show_py (methods c) b)" by simp
  show ?case using d s Cons.IH [OF rest] by simp
qed

lemma script_title_fst: "fst (script_title s err) = display_title s"
  by (simp add: display_title_def script_title_def wrap_call_def split: sum.splits option.splits)

lemma script_titles_fst: "fst (script_titles ss err) = map display_title ss"
proof (induction ss arbitrary: err)
  case Nil
  show ?case by simp
next
  case (Cons s ss)
  obtain t err1 where 1: "script_title s err = (t, err1)" by (cases "script_title s err")
  obtain ts err2 where 2: "script_titles ss err1 = (ts, err2)" by (cases "script_titles ss err1")
  from 1 have "t = display_title s" using script_title_fst [of s err] by simp
  moreover from 2 have "ts = map display_title ss" using Cons.IH [of err1] by simp
  ultimately show ?case using 1 2 by simp
qed

lemma n_controls_cong: "cls s' = cls s \<Longrightarrow> n_controls b s' = n_controls b s"
  by (simp add: n_controls_def)

lemma setup_controls_Cons:
  "\<exists>s' inputs1 err1.
     setup_controls (s # ss) b inputs err =
       (let (ss', inputs', err') = setup_controls ss b inputs1 err1 in (s' # ss', inputs', err'))
     \<and> cls s' = cls s \<and> filename s' = filename s
     \<and> args_from s' = Some (length inputs)
     \<and> args_to s' = Some (length inputs + n_controls b s)
     \<and> length inputs1 = length inputs + n_controls b s
     \<and> take (length inputs) inputs1 = inputs"
proof -
  define c where "c = fst (wrap_call (ui (methods (cls s)) b) (filename s) ''ui'' None err)"
  define err1 where "err1 = snd (wrap_call (ui (methods (cls s)) b) (filename s) ''ui'' None err)"
  define inputs1 where "inputs1 =
    (case c of
       None \<Rightarrow> inputs
     | Some cs \<Rightarrow> inputs @ map Ctl (map (\<lambda>c. c\<lparr>custom_script_source := Some (basename (filename s)),
                                                visible := False\<rparr>) cs))"
  define s' where "s' = s\<lparr>args_from := Some (length inputs), args_to := Some (length inputs1)\<rparr>"
  have n: "n_controls b s = (case c of None \<Rightarrow> 0 | Some cs \<Rightarrow> length cs)"
    by (simp add: n_controls_def c_def wrap_call_def split: sum.splits option.splits)
  have len: "length inputs1 = length inputs + n_controls b s"
    by (simp add: inputs1_def n split: option.splits)
  have pre: "take (length inputs) inputs1 = inputs"
    by (simp add: inputs1_def split: option.splits)
  have step: "setup_controls (s # ss) b inputs err =
       (let (ss', inputs', err') = setup_controls ss b inputs1 err1 in (s' # ss', inputs', err'))"
    by (cases c)
      (simp_all add: c_def err1_def inputs1_def s'_def Let_def case_prod_beta)
  have "cls s' = cls s" "filename s' = filename s" "args_from s' = Some (length inputs)"
    "args_to s' = Some (length inputs + n_controls b s)"
    by (simp_all add: s'_def len)
  with step len pre show ?thesis by blast
qed

lemma setup_controls_layout:
  "setup_controls ss b inputs err = (ss', inputs', err') \<Longrightarrow>
     length ss' = length ss
     \<and> map descriptor ss' = map descriptor ss
     \<and> length inputs' = length inputs + sum_list (map (n_controls b) ss)
     \<and> take (length inputs) inputs' = inputs
     \<and> (\<forall>k < length ss.
           args_from (ss' ! k) = Some (length inputs + sum_list (map (n_controls b) (take k ss)))
         \<and> args_to (ss' ! k) =
             Some (length inputs + sum_list (map (n_controls b) (take k ss)) + n_controls b (ss ! k)))"
proof (induction ss arbitrary: inputs err ss' inputs' err')
  case Nil
  then show ?case by simp
next
  case (Cons s ss)
  from setup_controls_Cons [of s ss b inputs err]
  obtain s' inputs1 err1 where
    step: "setup_controls (s # ss) b inputs err =
       (let (ss', inputs', err') = setup_controls ss b inputs1 err1 in (s' # ss', inputs', err'))"
    and s': "cls s' = cls s" "filename s' = filename s"
      "args_from s' = Some (length inputs)" "args_to s' = Some (length inputs + n_controls b s)"
    and len1: "length inputs1 = length inputs + n_controls b s"
    and pre1: "take (length inputs) inputs1 = inputs"
    by blast
  obtain ss2 inputs2 err2 where rest: "setup_controls ss b inputs1 err1 = (ss2, inputs2, err2)"
    by (cases "setup_controls ss b inputs1 err1")
  from step rest Cons.prems have res: "ss' = s' # ss2" "inputs' = inputs2" "err' = err2"
    by simp_all
  note IH = Cons.IH [OF rest]
  from IH have l2: "length ss2 = length ss" and d2: "map descriptor ss2 = map descriptor ss"
    and li2: "length inputs2 = length inputs1 + sum_list (map (n_controls b) ss)"
    and p2: "take (length inputs1) inputs2 = inputs1"
    and r2: "\<forall>k < length ss.
           args_from (ss2 ! k) = Some (length inputs1 + sum_list (map (n_controls b) (take k ss)))
         \<and> args_to (ss2 ! k) =
             Some (length inputs1 + sum_list (map (n_controls b) (take k ss)) + n_controls b (ss ! k))"
    by blast+
  have a: "length ss' = length (s # ss)" using res l2 by simp
  have b: "map descriptor ss' = map descriptor (s # ss)"
    using res d2 s' by (simp add: descriptor_def)
  have c: "length inputs' = length inputs + sum_list (map (n_controls b) (s # ss))"
    using res li2 len1 by simp
  have "take (length inputs) inputs2 = take (length inputs) (take (length inputs1) inputs2)"
    using len1 by (simp add: min_def)
  then have d: "take (length inputs) inputs' = inputs"
    using res p2 pre1 by simp
  have e: "\<forall>k < length (s # ss).
           args_from (ss' ! k) = Some (length inputs + sum_list (map (n_controls b) (take k (s # ss))))
         \<and> args_to (ss' ! k) =
             Some (length inputs + sum_list (map (n_controls b) (take k (s # ss)))
                   + n_controls b ((s # ss) ! k))"
  proof (intro allI impI)
    fix k assume k: "k < length (s # ss)"
    show "args_from (ss' ! k) = Some (length inputs + sum_list (map (n_controls b) (take k (s # ss))))
         \<and> args_to (ss' ! k) =
             Some (length inputs + sum_list (map (n_controls b) (take k (s # ss)))
                   + n_controls b ((s # ss) ! k))"
    proof (cases k)
      case 0
      then show ?thesis using res s' by simp
    next
      case (Suc j)
      with k have "j < length ss" by simp
      with r2 have "args_from (ss2 ! j) = Some (length inputs1 + sum_list (map (n_controls b) (take j ss)))
         \<and> args_to (ss2 ! j) =
             Some (length inputs1 + sum_list (map (n_controls b) (take j ss)) + n_controls b (ss ! j))"
        by blast
      then show ?thesis using Suc res len1 by simp
    qed
  qed
  from a b c d e show ?case by blast
qed

lemma n_controls_descriptor:
  "n_controls b s = n_controls b (new_script (fst (descriptor s)) (snd (descriptor s)))"
  by (simp add: n_controls_def descriptor_def new_script_def)

lemma display_title_descriptor:
  "display_title s = display_title (new_script (fst (descriptor s)) (snd (descriptor s)))"
  by (simp add: display_title_def script_title_def descriptor_def new_script_def wrap_call_def
      split: sum.splits option.splits)

lemma map_n_controls_cong:
  assumes "map descriptor xs = map descriptor ys"
  shows "map (n_controls b) xs = map (n_controls b) ys"
proof -
  have "map (n_controls b) zs =
      map (\<lambda>d. n_controls b (new_script (fst d) (snd d))) (map descriptor zs)" for zs :: "('a, 'b) script list"
    using n_controls_descriptor [of b] by (induction zs) auto
  with assms show ?thesis by metis
qed

lemma map_display_title_cong:
  assumes "map descriptor xs = map descriptor ys"
  shows "map display_title xs = map display_title ys"
proof -
  have "map display_title zs =
      map (\<lambda>d. display_title (new_script (fst d) (snd d))) (map descriptor zs)" for zs :: "('a, 'b) script list"
    using display_title_descriptor by (induction zs) auto
  with assms show ?thesis by metis
qed

lemma setup_scripts_descriptors:
  assumes "setup_scripts reg b ss = (None, ss')"
  shows "map descriptor ss' = map descriptor ss @ filter (shown b) reg"
proof -
  have "map descriptor (map (\<lambda>(c, p). new_script c p) xs) = xs" for xs :: "(('a, 'b) pyclass \<times> string) list"
    by (induction xs) (auto simp: descriptor_def new_script_def)
  moreover have "filter (\<lambda>(c, p). show_py (methods c) b = Inr True) reg = filter (shown b) reg"
    by (rule filter_cong) (auto simp: shown_def)
  ultimately show ?thesis using setup_scripts_None [OF assms] by simp
qed

lemma setup_ui_layout:
  assumes "setup_ui self b g = (Inr inputs, self', g')"
  shows "map descriptor (scripts self') = map descriptor (scripts self) @ filter (shown b) (scripts_data g)"
    and "length inputs = 1 + sum_list (map (n_controls b) (scripts self')) + 1"
    and "\<forall>k < length (scripts self').
           args_from (scripts self' ! k) =
             Some (1 + sum_list (map (n_controls b) (take k (scripts self'))))
         \<and> args_to (scripts self' ! k) =
             Some (1 + sum_list (map (n_controls b) (take k (scripts self')))
                   + n_controls b (scripts self' ! k))"
    and "\<exists>elem_id. inputs ! 0 =
           Dropdown ''Script'' (''None'' # map display_title (scripts self')) ''None'' elem_id"
    and "scripts_data g' = scripts_data g"
proof -
  obtain r ss where 1: "setup_scripts (scripts_data g) b (scripts self) = (r, ss)"
    by (cases "setup_scripts (scripts_data g) b (scripts self)")
  have r: "r = None" using assms 1 by (cases r) (simp_all add: setup_ui_def)
  obtain titles err1 where 2: "script_titles ss (stderr g) = (titles, err1)"
    by (cases "script_titles ss (stderr g)")
  have titles: "titles = map display_title ss" using script_titles_fst [of ss "stderr g"] 2 by simp
  define dropdown where "dropdown = Dropdown ''Script'' (''None'' # titles) ''None''
    ((if b then ''img2img_'' else ''txt2img_'') @ ''scripts'')"
  obtain ss' ctl err2 where 3: "setup_controls ss b [dropdown] err1 = (ss', ctl, err2)"
    by (cases "setup_controls ss b [dropdown] err1") auto
  from assms 1 r 2 3 have res: "inputs = ctl @ [Textbox ''{}''
      ((if b then ''img2img_'' else ''txt2img_'') @ ''script_restraints_json'') False False]"
    "scripts self' = ss'" "g' = g\<lparr>stderr := err2\<rparr>"
    by (auto simp: setup_ui_def Let_def dropdown_def)
  note L = setup_controls_layout [OF 3]
  from L have d: "map descriptor ss' = map descriptor ss" by blast
  note nc = map_n_controls_cong [OF d, of b]
  from L have len: "length ctl = 1 + sum_list (map (n_controls b) ss)" by simp
  from L have pre: "take 1 ctl = [dropdown]" by simp
  from L have ll: "length ss' = length ss" by blast
  show "map descriptor (scripts self') = map descriptor (scripts self) @ filter (shown b) (scripts_data g)"
    using setup_scripts_descriptors [of "scripts_data g" b "scripts self" ss] 1 r d res by simp
  show "length inputs = 1 + sum_list (map (n_controls b) (scripts self')) + 1"
    using res len nc by simp
  show "\<forall>k < length (scripts self').
           args_from (scripts self' ! k) =
             Some (1 + sum_list (map (n_controls b) (take k (scripts self'))))
         \<and> args_to (scripts self' ! k) =
             Some (1 + sum_list (map (n_controls b) (take k (scripts self')))
                   + n_controls b (scripts self' ! k))"
  proof (intro allI impI)
    fix k assume "k < length (scripts self')"
    then have k: "k < length ss" using res ll by simp
    have tk: "map (n_controls b) (take k ss') = map (n_controls b) (take k ss)"
      using nc by (simp add: take_map [symmetric])
    have nk: "n_controls b (ss' ! k) = n_controls b (ss ! k)"
      using nc k ll by (metis nth_map)
    from L k have "args_from (ss' ! k) = Some (length [dropdown] + sum_list (map (n_controls b) (take k ss)))
         \<and> args_to (ss' ! k) =
             Some (length [dropdown] + sum_list (map (n_controls b) (take k ss)) + n_controls b (ss ! k))"
      by blast
    then show "args_from (scripts self' ! k) =
             Some (1 + sum_list (map (n_controls b) (take k (scripts self'))))
         \<and> args_to (scripts self' ! k) =
             Some (1 + sum_list (map (n_controls b) (take k (scripts self')))
                   + n_controls b (scripts self' ! k))"
      using res tk nk by simp
  qed
  have "ctl \<noteq> []" using len by auto
  then have "ctl ! 0 = dropdown" using pre by (cases ctl) simp_all
  moreover have "inputs ! 0 = ctl ! 0" using res \<open>ctl \<noteq> []\<close> by (simp add: nth_append)
  ultimately show "\<exists>elem_id. inputs ! 0 =
           Dropdown ''Script'' (''None'' # map display_title (scripts self')) ''None'' elem_id"
    using titles map_display_title_cong [OF d] res by (simp add: dropdown_def)
  show "scripts_data g' = scripts_data g" using res by simp
qed

lemma Script_methods:
  "title (methods Script) = Inl NotImplementedError"
  "ui (methods Script) b = Inr None"
  "show_py (methods Script) b = Inr True"
  "ui_restraints (methods Script) = Inr (JDict [])"
  "run (methods Script) p args = Inl NotImplementedError"
  by (simp_all add: Script_def)

lemma demo_methods:
  "title (methods demo_plugin) = Inr (Some ''Demo'')"
  "ui (methods demo_plugin) b = Inr (Some demo_controls)"
  "show_py (methods demo_plugin) b = Inr True"
  "ui_restraints (methods demo_plugin) = Inr (JDict [(''methods'', JList [JStr ''Euler'', JStr ''DDIM''])])"
  "run (methods demo_plugin) p args = Inr (Some (p @ '' processed''))"
  by (simp_all add: demo_plugin_def)

lemma upscale_methods:
  "title (methods upscale_plugin) = Inr (Some ''Upscale'')"
  "ui (methods upscale_plugin) b = Inr (Some [\<lparr> label = ''Factor'', custom_script_source = None,
                                         visible = True \<rparr>])"
  "show_py (methods upscale_plugin) b = Inr b"
  "ui_restraints (methods upscale_plugin) = Inr (JDict [])"
  "run (methods upscale_plugin) p args = Inr None"
  by (simp_all add: upscale_plugin_def)

lemma broken_methods:
  "title (methods broken_plugin) = Inl (Raised ''title failed'')"
  "ui (methods broken_plugin) b = Inl (Raised ''ui failed'')"
  "show_py (methods broken_plugin) b = Inr True"
  "ui_restraints (methods broken_plugin) = Inr (JDict [])"
  "run (methods broken_plugin) p args = Inr None"
  by (simp_all add: broken_plugin_def)

lemmas demo_simps = Script_methods demo_methods upscale_methods broken_methods

lemma demo_setup_ui:
  "setup_ui new_runner True demo_globals =
     (Inr demo_inputs, demo_session, demo_globals\<lparr>stderr := demo_stderr\<rparr>)"
  by (simp add: setup_ui_def new_runner_def demo_globals_def demo_inputs_def demo_session_def
      demo_stderr_def demo_simps new_script_def script_title_def wrap_call_def basename_def
      demo_controls_def Let_def)

text \<open>
  Claim C1. When \<open>setup_ui\<close> returns, the argument vector has one leading slot for the
  selector, then the controls of the retained instances, then one trailing slot: its
  length is \<open>1 + (\<Sum> c\<^sub>k) + 1\<close>. The range of the \<open>k\<close>-th instance starts after the
  controls of the instances before it, the first at index 1, and holds \<open>c\<^sub>k\<close> positions,
  so every range starts where the one before ends. The instances are those already in the
  runner followed by the registry entries whose \<open>show\<close> is true, in registry order.
\<close>

theorem session_layout:
  assumes "setup_ui self b g = (Inr inputs, self', g')"
  shows "length inputs = 1 + sum_list (map (n_controls b) (scripts self')) + 1
       \<and> (\<forall>k < length (scripts self').
            \<exists>a. args_from (scripts self' ! k) = Some a
              \<and> args_to (scripts self' ! k) = Some (a + n_controls b (scripts self' ! k))
              \<and> a = 1 + sum_list (map (n_controls b) (take k (scripts self'))))
       \<and> (\<forall>k. Suc k < length (scripts self') \<longrightarrow>
            args_from (scripts self' ! Suc k) = args_to (scripts self' ! k))
       \<and> map descriptor (scripts self') =
           map descriptor (scripts self) @ filter (shown b) (scripts_data g)"
proof -
  note L = setup_ui_layout [OF assms]
  have contiguous: "args_from (scripts self' ! Suc k) = args_to (scripts self' ! k)"
    if k: "Suc k < length (scripts self')" for k
  proof -
    from k have "take (Suc k) (scripts self') = take k (scripts self') @ [scripts self' ! k]"
      by (simp add: take_Suc_conv_app_nth)
    then have "sum_list (map (n_controls b) (take (Suc k) (scripts self'))) =
        sum_list (map (n_controls b) (take k (scripts self'))) + n_controls b (scripts self' ! k)"
      by simp
    with L(3) k show ?thesis by simp
  qed
  from L(2) L(3) L(1) contiguous show ?thesis by simp
qed

theorem session_layout_witness:
  "setup_ui new_runner True demo_globals =
     (Inr demo_inputs, demo_session, demo_globals\<lparr>stderr := demo_stderr\<rparr>)
   \<and> length demo_inputs = 1 + (2 + 1 + 0 + 0) + 1
   \<and> map (n_controls True) (scripts demo_session) = [2, 1, 0, 0]
   \<and> map (\<lambda>s. (args_from s, args_to s)) (scripts demo_session) =
       [(Some 1, Some 3), (Some 3, Some 4), (Some 4, Some 4), (Some 4, Some 4)]
   \<and> map descriptor (scripts demo_session) = scripts_data demo_globals"
proof -
  have n: "map (n_controls True) (scripts demo_session) = [2, 1, 0, 0]"
    by (simp add: demo_session_def n_controls_def demo_simps demo_controls_def)
  have "length demo_inputs = 1 + sum_list (map (n_controls True) (scripts demo_session)) + 1
      \<and> map descriptor (scripts demo_session) =
           map descriptor (scripts new_runner) @ filter (shown True) (scripts_data demo_globals)"
    using session_layout [OF demo_setup_ui] by blast
  then show ?thesis
    using demo_setup_ui n
    by (simp add: demo_session_def new_runner_def demo_globals_def shown_def demo_simps)
qed

lemma setup_ui_total:
  assumes "\<forall>d \<in> set (scripts_data g). \<not> isl (show_py (methods (fst d)) b)"
  shows "\<exists>inputs self' g'. setup_ui self b g = (Inr inputs, self', g')"
proof -
  from assms have "\<forall>(c, p) \<in> set (scripts_data g). \<not> isl (show_py (methods c) b)" by auto
  from setup_scripts_total [OF this, of "scripts self"]
  obtain ss where "setup_scripts (scripts_data g) b (scripts self) = (None, ss)"
    by (cases "setup_scripts (scripts_data g) b (scripts self)") auto
  then show ?thesis
    by (simp add: setup_ui_def Let_def case_prod_beta)
qed

text \<open>
  Claim C8. When no \<open>show\<close> call raises (so that the build gets as far as asking for
  controls), \<open>setup_ui\<close> returns an argument vector, every retained instance has its
  choice in the selector, and an instance whose \<open>ui\<close> call raises has an empty range.
\<close>

theorem ui_exception_is_absorbed:
  assumes "\<forall>d \<in> set (scripts_data g). \<not> isl (show_py (methods (fst d)) b)"
  shows "\<exists>inputs self' g' elem_id.
           setup_ui self b g = (Inr inputs, self', g')
         \<and> inputs ! 0 =
             Dropdown ''Script'' (''None'' # map display_title (scripts self')) ''None'' elem_id
         \<and> (\<forall>k < length (scripts self').
              isl (ui (methods (cls (scripts self' ! k))) b) \<longrightarrow>
              (\<exists>a. args_from (scripts self' ! k) = Some a \<and> args_to (scripts self' ! k) = Some a))"
proof -
  from setup_ui_total [OF assms] obtain inputs self' g'
    where r: "setup_ui self b g = (Inr inputs, self', g')" by blast
  note L = setup_ui_layout [OF r]
  from L(4) obtain elem_id where d: "inputs ! 0 =
      Dropdown ''Script'' (''None'' # map display_title (scripts self')) ''None'' elem_id"
    by blast
  have "\<exists>a. args_from (scripts self' ! k) = Some a \<and> args_to (scripts self' ! k) = Some a"
    if "k < length (scripts self')" and "isl (ui (methods (cls (scripts self' ! k))) b)" for k
  proof -
    from that(2) have "n_controls b (scripts self' ! k) = 0"
      by (cases "ui (methods (cls (scripts self' ! k))) b") (simp_all add: n_controls_def)
    with L(3) that(1) show ?thesis by simp
  qed
  with r d show ?thesis by blast
qed

theorem ui_exception_is_absorbed_witness:
  "map (\<lambda>d. isl (show_py (methods (fst d)) True)) (scripts_data demo_globals) =
     [False, False, False, False]
   \<and> isl (ui (methods broken_plugin) True)
   \<and> setup_ui new_runner True demo_globals =
       (Inr demo_inputs, demo_session, demo_globals\<lparr>stderr := demo_stderr\<rparr>)
   \<and> choices (demo_inputs ! 0) ! 3 = ''scripts/broken.py [error]''
   \<and> cls (scripts demo_session ! 2) = broken_plugin
   \<and> args_from (scripts demo_session ! 2) = Some 4 \<and> args_to (scripts demo_session ! 2) = Some 4"
proof -
  have h: "\<forall>d \<in> set (scripts_data demo_globals). \<not> isl (show_py (methods (fst d)) True)"
    by (simp add: demo_globals_def demo_simps)
  from ui_exception_is_absorbed [OF h, of new_runner]
  have "\<exists>a. args_from (scripts demo_session ! 2) = Some a \<and> args_to (scripts demo_session ! 2) = Some a"
    by (simp add: demo_setup_ui demo_session_def demo_simps)
  moreover have "map (\<lambda>d. isl (show_py (methods (fst d)) True)) (scripts_data demo_globals) =
      [False, False, False, False]"
    by (simp add: demo_globals_def demo_simps)
  ultimately show ?thesis
    using demo_setup_ui by (simp add: demo_session_def demo_inputs_def demo_simps)
qed

lemma untitled_methods:
  "title (methods untitled_plugin) = Inr (Some [])"
  "ui (methods untitled_plugin) b = Inr None"
  "show_py (methods untitled_plugin) b = Inr True"
  by (simp_all add: untitled_plugin_def)

text \<open>
  Claim C7 does not hold as stated: a \<open>title\<close> call that returns the empty string is
  shown as the fallback label, since line 116 tests the result with \<open>or\<close>.
\<close>

theorem empty_title_counterexample:
  "title (methods untitled_plugin) = Inr (Some [])
   \<and> fst (setup_ui new_runner False untitled_globals) =
       Inr [Dropdown ''Script'' [''None'', ''scripts/untitled.py [error]''] ''None'' ''txt2img_scripts'',
            Textbox ''{}'' ''txt2img_script_restraints_json'' False False]"
  by (simp add: setup_ui_def new_runner_def untitled_globals_def untitled_methods new_script_def
      script_title_def wrap_call_def Let_def)

lemma display_title_cases:
  "display_title s =
     (case title (methods (cls s)) of
        Inr (Some t) \<Rightarrow> if t = [] then filename s @ '' [error]'' else t
      | _ \<Rightarrow> filename s @ '' [error]'')"
  by (simp add: display_title_def script_title_def wrap_call_def split: sum.splits option.splits)

text \<open>
  Claim C7, amended. The choice of the \<open>k\<close>-th retained instance is what its \<open>title\<close>
  call returns when that is a string that is not empty; it is the fallback label
  \<open>"<filename> [error]"\<close> when the call raises, returns \<open>None\<close> or returns the empty string.
\<close>

theorem displayed_title:
  assumes "setup_ui self b g = (Inr inputs, self', g')" and "k < length (scripts self')"
  shows "(\<forall>t. title (methods (cls (scripts self' ! k))) = Inr (Some t) \<and> t \<noteq> [] \<longrightarrow>
            choices (inputs ! 0) ! Suc k = t)
       \<and> (isl (title (methods (cls (scripts self' ! k))))
            \<or> title (methods (cls (scripts self' ! k))) = Inr None
            \<or> title (methods (cls (scripts self' ! k))) = Inr (Some []) \<longrightarrow>
            choices (inputs ! 0) ! Suc k = filename (scripts self' ! k) @ '' [error]'')"
proof -
  from setup_ui_layout(4) [OF assms(1)] assms(2)
  have c: "choices (inputs ! 0) ! Suc k = display_title (scripts self' ! k)" by auto
  show ?thesis
    unfolding c display_title_cases
    by (cases "title (methods (cls (scripts self' ! k)))") (auto split: option.splits)
qed

theorem displayed_title_witness:
  "setup_ui new_runner True demo_globals =
     (Inr demo_inputs, demo_session, demo_globals\<lparr>stderr := demo_stderr\<rparr>)
   \<and> (1::nat) < length (scripts demo_session)
   \<and> title (methods (cls (scripts demo_session ! 1))) = Inr (Some ''Upscale'')
   \<and> choices (demo_inputs ! 0) ! Suc 1 = ''Upscale''"
proof -
  have k: "(1::nat) < length (scripts demo_session)" by (simp add: demo_session_def)
  have t: "title (methods (cls (scripts demo_session ! 1))) = Inr (Some ''Upscale'')"
    by (simp add: demo_session_def demo_simps)
  from displayed_title [OF demo_setup_ui k] t
  have "choices (demo_inputs ! 0) ! Suc 1 = ''Upscale''" by simp
  with demo_setup_ui k t show ?thesis by simp
qed

text \<open>
  Claim C6 describes \<open>show\<close> as called through \<open>wrap_call\<close>. Line 111 calls it
  directly: with a registry whose second class raises in \<open>show\<close>, \<open>setup_ui\<close> raises
  that exception and returns no argument vector.
\<close>

theorem show_exception_leaves_setup_ui:
  "show_py (methods raising_show_plugin) False = Inl (Raised ''show failed'')
   \<and> setup_ui new_runner False raising_globals =
       (Inl (Raised ''show failed''),
        \<lparr> scripts = [new_script demo_plugin ''scripts/good.py''] \<rparr>,
        raising_globals)"
  by (simp add: setup_ui_def new_runner_def raising_globals_def raising_show_plugin_def demo_simps)

text \<open>
  Claim C9 does not hold for a second \<open>setup_ui\<close> on the same runner: the first build
  leaves its instances in \<open>self.scripts\<close> and the second appends to them.
\<close>

theorem rebuild_counterexample:
  "setup_ui new_runner True demo_globals =
     (Inr demo_inputs, demo_session, demo_globals\<lparr>stderr := demo_stderr\<rparr>)
   \<and> length (scripts demo_session) = 4
   \<and> length (scripts (fst (snd (setup_ui demo_session True (demo_globals\<lparr>stderr := demo_stderr\<rparr>))))) = 8"
proof -
  have h: "\<forall>d \<in> set (scripts_data (demo_globals\<lparr>stderr := demo_stderr\<rparr>)).
      \<not> isl (show_py (methods (fst d)) True)"
    by (simp add: demo_globals_def demo_simps)
  from setup_ui_total [OF h, of demo_session] obtain inputs self' g'
    where r: "setup_ui demo_session True (demo_globals\<lparr>stderr := demo_stderr\<rparr>) = (Inr inputs, self', g')"
    by blast
  from setup_ui_layout(1) [OF r]
  have "length (map descriptor (scripts self')) = 8"
    by (simp add: demo_session_def demo_globals_def shown_def demo_simps)
  with r demo_setup_ui show ?thesis by (simp add: demo_session_def)
qed

lemma demo_rebuild:
  "setup_ui demo_session True (demo_globals\<lparr>stderr := demo_stderr\<rparr>) =
     (Inr demo_rebuilt_inputs, demo_rebuilt_session, demo_globals\<lparr>stderr := demo_rebuilt_stderr\<rparr>)"
  by (simp add: setup_ui_def demo_globals_def demo_session_def demo_rebuilt_inputs_def
      demo_rebuilt_session_def demo_rebuilt_stderr_def
      demo_stderr_def demo_simps new_script_def script_title_def wrap_call_def basename_def
      demo_controls_def Let_def)

lemma take_map_descriptor:
  assumes "map descriptor ys = map descriptor xs @ zs" and "k \<le> length xs"
  shows "map descriptor (take k ys) = map descriptor (take k xs)"
proof -
  have "map descriptor (take k ys) = take k (map descriptor ys)" by (simp add: take_map)
  also have "\<dots> = take k (map descriptor xs)" using assms by simp
  finally show ?thesis by (simp add: take_map)
qed

lemma rebuild_prefix:
  assumes first: "setup_ui self0 b g = (Inr inputs1, self1, g1)"
    and reg: "scripts_data h = scripts_data g"
    and second: "setup_ui self1 b h = (Inr inputs2, self2, g2)"
  shows "take (length (scripts self1)) (scripts self2) = scripts self1"
    and "map descriptor (drop (length (scripts self1)) (scripts self2)) =
           filter (shown b) (scripts_data g)"
    and "length (scripts self2) =
           length (scripts self1) + length (filter (shown b) (scripts_data g))"
proof -
  note L1 = setup_ui_layout [OF first]
  note L2 = setup_ui_layout [OF second]
  let ?n = "length (scripts self1)"
  from L2(1) reg have d: "map descriptor (scripts self2) =
      map descriptor (scripts self1) @ filter (shown b) (scripts_data g)" by simp
  from d have "length (map descriptor (scripts self2)) =
      length (map descriptor (scripts self1) @ filter (shown b) (scripts_data g))" by simp
  then show len: "length (scripts self2) = ?n + length (filter (shown b) (scripts_data g))"
    by simp
  have "map descriptor (drop ?n (scripts self2)) = drop ?n (map descriptor (scripts self2))"
    by (simp add: drop_map)
  with d show "map descriptor (drop ?n (scripts self2)) = filter (shown b) (scripts_data g)"
    by simp
  show "take ?n (scripts self2) = scripts self1"
  proof (rule nth_equalityI)
    show "length (take ?n (scripts self2)) = length (scripts self1)" using len by simp
  next
    fix k assume "k < length (take ?n (scripts self2))"
    then have k: "k < ?n" and k2: "k < length (scripts self2)" by simp_all
    from d k have dk: "descriptor (scripts self2 ! k) = descriptor (scripts self1 ! k)"
      by (metis k2 length_map nth_append nth_map)
    then have c: "cls (scripts self2 ! k) = cls (scripts self1 ! k)"
      and f: "filename (scripts self2 ! k) = filename (scripts self1 ! k)"
      by (simp_all add: descriptor_def)
    from k have "map descriptor (take k (scripts self2)) = map descriptor (take k (scripts self1))"
      using take_map_descriptor [OF d, of k] by simp
    then have s: "map (n_controls b) (take k (scripts self2)) =
        map (n_controls b) (take k (scripts self1))"
      by (rule map_n_controls_cong)
    have n: "n_controls b (scripts self2 ! k) = n_controls b (scripts self1 ! k)"
      using c by (rule n_controls_cong)
    from L1(3) k L2(3) k2 s n
    have a: "args_from (scripts self2 ! k) = args_from (scripts self1 ! k)"
      and t: "args_to (scripts self2 ! k) = args_to (scripts self1 ! k)"
      by simp_all
    have "scripts self2 ! k = scripts self1 ! k"
      using c f a t by (intro script.equality) simp_all
    with k show "take ?n (scripts self2) ! k = scripts self1 ! k" by simp
  qed
qed

text \<open>
  Claim C9, amended. A second \<open>setup_ui\<close> for the same tab on the same runner, from a
  registry with the same entries, keeps the instances of the first build at the front, in
  their order and with their ranges, and appends one new instance for every registry entry
  whose \<open>show\<close> is true, in registry order, with ranges that go on from where the controls
  of the first build end; the argument vector grows by the controls of the new instances.
  The instances of the two builds are the same only when no registry entry is shown; on a
  new runner the second build holds every shown entry twice.
\<close>

theorem rebuild_appends_instances:
  assumes "setup_ui self0 b g = (Inr inputs1, self1, g1)"
    and "scripts_data h = scripts_data g"
    and "setup_ui self1 b h = (Inr inputs2, self2, g2)"
  shows "take (length (scripts self1)) (scripts self2) = scripts self1
       \<and> map descriptor (drop (length (scripts self1)) (scripts self2)) =
           filter (shown b) (scripts_data g)
       \<and> (\<forall>j < length (filter (shown b) (scripts_data g)).
            (let s = scripts self2 ! (length (scripts self1) + j);
                 a = length inputs1 - 1
                       + sum_list (map (n_controls b)
                           (take j (drop (length (scripts self1)) (scripts self2))))
             in args_from s = Some a \<and> args_to s = Some (a + n_controls b s)))
       \<and> length inputs2 =
           length inputs1
             + sum_list (map (n_controls b) (drop (length (scripts self1)) (scripts self2)))
       \<and> ((scripts self2 = scripts self1) = (filter (shown b) (scripts_data g) = []))
       \<and> (scripts self0 = [] \<longrightarrow>
            map descriptor (scripts self1) = filter (shown b) (scripts_data g)
          \<and> map descriptor (scripts self2) =
              filter (shown b) (scripts_data g) @ filter (shown b) (scripts_data g))"
proof -
  note L1 = setup_ui_layout [OF assms(1)]
  note L2 = setup_ui_layout [OF assms(3)]
  note P = rebuild_prefix [OF assms]
  let ?n = "length (scripts self1)"
  let ?new = "drop ?n (scripts self2)"
  have split: "scripts self2 = scripts self1 @ ?new"
    using P(1) append_take_drop_id [of ?n "scripts self2"] by simp
  have sum1: "sum_list (map (n_controls b) (scripts self1)) = length inputs1 - 2"
    using L1(2) by simp
  have ranges: "let s = scripts self2 ! (?n + j);
                 a = length inputs1 - 1 + sum_list (map (n_controls b) (take j ?new))
             in args_from s = Some a \<and> args_to s = Some (a + n_controls b s)"
    if j: "j < length (filter (shown b) (scripts_data g))" for j
  proof -
    from j P(3) have k: "?n + j < length (scripts self2)" by simp
    have "take (?n + j) (scripts self2) = scripts self1 @ take j ?new"
      by (subst split) simp
    then have "sum_list (map (n_controls b) (take (?n + j) (scripts self2))) =
        sum_list (map (n_controls b) (scripts self1)) + sum_list (map (n_controls b) (take j ?new))"
      by simp
    with L2(3) k L1(2) show ?thesis by (simp add: Let_def)
  qed
  have len: "length inputs2 = length inputs1 + sum_list (map (n_controls b) ?new)"
  proof -
    have "sum_list (map (n_controls b) (scripts self2)) =
        sum_list (map (n_controls b) (scripts self1)) + sum_list (map (n_controls b) ?new)"
      by (subst split) simp
    with L2(2) L1(2) show ?thesis by simp
  qed
  have same: "(scripts self2 = scripts self1) = (filter (shown b) (scripts_data g) = [])"
  proof
    assume "scripts self2 = scripts self1"
    with P(3) show "filter (shown b) (scripts_data g) = []" by simp
  next
    assume "filter (shown b) (scripts_data g) = []"
    with P(3) have "length (scripts self2) = ?n" by simp
    with P(1) show "scripts self2 = scripts self1" by simp
  qed
  have fresh: "map descriptor (scripts self1) = filter (shown b) (scripts_data g)
      \<and> map descriptor (scripts self2) =
          filter (shown b) (scripts_data g) @ filter (shown b) (scripts_data g)"
    if "scripts self0 = []"
  proof -
    from L1(1) that have 1: "map descriptor (scripts self1) = filter (shown b) (scripts_data g)"
      by simp
    from L2(1) assms(2) 1 show ?thesis by simp
  qed
  from P(1) P(2) ranges len same fresh show ?thesis by blast
qed

theorem rebuild_appends_instances_witness:
  "setup_ui new_runner True demo_globals =
     (Inr demo_inputs, demo_session, demo_globals\<lparr>stderr := demo_stderr\<rparr>)
   \<and> setup_ui demo_session True (demo_globals\<lparr>stderr := demo_stderr\<rparr>) =
     (Inr demo_rebuilt_inputs, demo_rebuilt_session, demo_globals\<lparr>stderr := demo_rebuilt_stderr\<rparr>)
   \<and> take 4 (scripts demo_rebuilt_session) = scripts demo_session
   \<and> map descriptor (drop 4 (scripts demo_rebuilt_session)) = scripts_data demo_globals
   \<and> map (\<lambda>s. (args_from s, args_to s)) (drop 4 (scripts demo_rebuilt_session)) =
       [(Some 4, Some 6), (Some 6, Some 7), (Some 7, Some 7), (Some 7, Some 7)]
   \<and> length demo_inputs = 5 \<and> length demo_rebuilt_inputs = 8
   \<and> scripts demo_rebuilt_session \<noteq> scripts demo_session"
proof -
  have e: "scripts_data (demo_globals\<lparr>stderr := demo_stderr\<rparr>) = scripts_data demo_globals"
    by simp
  have n: "length (scripts demo_session) = 4" by (simp add: demo_session_def)
  have f: "filter (shown True) (scripts_data demo_globals) = scripts_data demo_globals"
    by (simp add: demo_globals_def shown_def demo_simps)
  note R = rebuild_appends_instances [OF demo_setup_ui e demo_rebuild]
  from R have 1: "take 4 (scripts demo_rebuilt_session) = scripts demo_session"
    unfolding n by blast
  from R have 2: "map descriptor (drop 4 (scripts demo_rebuilt_session)) = scripts_data demo_globals"
    unfolding n f by blast
  from R have "(scripts demo_rebuilt_session = scripts demo_session) =
      (scripts_data demo_globals = [])"
    unfolding f by blast
  then have 3: "scripts demo_rebuilt_session \<noteq> scripts demo_session"
    by (simp add: demo_globals_def)
  have 4: "map (\<lambda>s. (args_from s, args_to s)) (drop 4 (scripts demo_rebuilt_session)) =
       [(Some 4, Some 6), (Some 6, Some 7), (Some 7, Some 7), (Some 7, Some 7)]"
    by (simp add: demo_rebuilt_session_def)
  have 5: "length demo_inputs = 5 \<and> length demo_rebuilt_inputs = 8"
    by (simp add: demo_inputs_def demo_rebuilt_inputs_def)
  from demo_setup_ui demo_rebuild 1 2 3 4 5 show ?thesis by simp
qed

section \<open>Properties of the selector-change rule\<close>

lemma gr_shows_Some:
  "gr_shows (Some a) (Some b) ps =
     Inr (map (\<lambda>pos. GrShow (pos = 0 \<or> (a \<le> pos \<and> pos < b))) ps)"
  by (induction ps) (auto simp: in_range_def)

lemma dumps_empty_dict: "dumps (JDict []) = ''{}''"
  by simp

text \<open>
  Claim C3. For a selector index \<open>i\<close> with \<open>1 \<le> i \<le> N\<close>, the rule shows the selector and
  the positions in the range of the \<open>i\<close>-th instance, hides every other position before
  the trailing one, and sets the trailing payload to the JSON text of what the instance's
  \<open>ui_restraints\<close> returns. For every other integer it shows the selector only and sets
  the payload to \<open>{}\<close>, and it does not raise.
\<close>

theorem select_script_rule:
  "(0 < i \<and> i \<le> int (length (scripts self))
      \<and> args_from (scripts self ! nat (i - 1)) = Some a
      \<and> args_to (scripts self ! nat (i - 1)) = Some b
      \<and> ui_restraints (methods (cls (scripts self ! nat (i - 1)))) = Inr restraints \<longrightarrow>
    select_script self inputs i =
      Inr (map (\<lambda>pos. GrShow (pos = 0 \<or> (a \<le> pos \<and> pos < b))) [0 ..< length inputs - 1]
           @ [TextboxUpdate (dumps restraints) False]))
   \<and> (\<not> (0 < i \<and> i \<le> int (length (scripts self))) \<longrightarrow>
    select_script self inputs i =
      Inr (map (\<lambda>pos. GrShow (pos = 0)) [0 ..< length inputs - 1]
           @ [TextboxUpdate ''{}'' False]))"
  by (simp add: select_script_def gr_shows_Some)

text \<open>The payload of the example plugin, as \<open>json.dumps\<close> writes it.\<close>

lemma demo_restraints_json:
  "dumps (JDict [(''methods'', JList [JStr ''Euler'', JStr ''DDIM''])]) =
     [CHR ''{'', CHR 0x22] @ ''methods'' @ [CHR 0x22] @ '': ['' @ [CHR 0x22] @ ''Euler''
       @ [CHR 0x22] @ '', '' @ [CHR 0x22] @ ''DDIM'' @ [CHR 0x22] @ '']}''"
  by (simp add: encode_str_def escape_char_def)

theorem select_script_rule_witness:
  "select_script demo_session demo_inputs 1 =
     Inr [GrShow True, GrShow True, GrShow True, GrShow False,
          TextboxUpdate (dumps (JDict [(''methods'', JList [JStr ''Euler'', JStr ''DDIM''])])) False]
   \<and> select_script demo_session demo_inputs 2 =
     Inr [GrShow True, GrShow False, GrShow False, GrShow True, TextboxUpdate ''{}'' False]
   \<and> select_script demo_session demo_inputs 0 =
     Inr [GrShow True, GrShow False, GrShow False, GrShow False, TextboxUpdate ''{}'' False]
   \<and> select_script demo_session demo_inputs 5 =
     Inr [GrShow True, GrShow False, GrShow False, GrShow False, TextboxUpdate ''{}'' False]
   \<and> select_script demo_session demo_inputs (- 1) =
     Inr [GrShow True, GrShow False, GrShow False, GrShow False, TextboxUpdate ''{}'' False]"
proof -
  have u: "[0 ..< length demo_inputs - 1] = [0, 1, 2, 3]"
    by (simp add: demo_inputs_def upt_rec)
  have n: "length (scripts demo_session) = 4" by (simp add: demo_session_def)
  have p2: "0 < (2::int) \<and> 2 \<le> int (length (scripts demo_session))
      \<and> args_from (scripts demo_session ! nat (2 - 1)) = Some 3
      \<and> args_to (scripts demo_session ! nat (2 - 1)) = Some 4
      \<and> ui_restraints (methods (cls (scripts demo_session ! nat (2 - 1)))) = Inr (JDict [])"
    by (simp add: demo_session_def demo_simps)
  from select_script_rule [of 2 demo_session 3 4 "JDict []" demo_inputs] p2
  have "select_script demo_session demo_inputs 2 =
      Inr (map (\<lambda>pos. GrShow (pos = 0 \<or> (3 \<le> pos \<and> pos < 4))) [0 ..< length demo_inputs - 1]
           @ [TextboxUpdate (dumps (JDict [])) False])"
    by blast
  then have r2: "select_script demo_session demo_inputs 2 =
     Inr [GrShow True, GrShow False, GrShow False, GrShow True, TextboxUpdate ''{}'' False]"
    unfolding u by simp
  have p1: "0 < (1::int) \<and> 1 \<le> int (length (scripts demo_session))
      \<and> args_from (scripts demo_session ! nat (1 - 1)) = Some 1
      \<and> args_to (scripts demo_session ! nat (1 - 1)) = Some 3
      \<and> ui_restraints (methods (cls (scripts demo_session ! nat (1 - 1)))) =
          Inr (JDict [(''methods'', JList [JStr ''Euler'', JStr ''DDIM''])])"
    by (simp add: demo_session_def demo_simps)
  from select_script_rule [of 1 demo_session 1 3
      "JDict [(''methods'', JList [JStr ''Euler'', JStr ''DDIM''])]" demo_inputs] p1
  have "select_script demo_session demo_inputs 1 =
      Inr (map (\<lambda>pos. GrShow (pos = 0 \<or> (1 \<le> pos \<and> pos < 3))) [0 ..< length demo_inputs - 1]
           @ [TextboxUpdate (dumps (JDict [(''methods'', JList [JStr ''Euler'', JStr ''DDIM''])])) False])"
    by blast
  then have r1: "select_script demo_session demo_inputs 1 =
     Inr [GrShow True, GrShow True, GrShow True, GrShow False,
          TextboxUpdate (dumps (JDict [(''methods'', JList [JStr ''Euler'', JStr ''DDIM''])])) False]"
    unfolding u by simp
  have none: "select_script demo_session demo_inputs i =
     Inr [GrShow True, GrShow False, GrShow False, GrShow False, TextboxUpdate ''{}'' False]"
    if "\<not> (0 < i \<and> i \<le> int (length (scripts demo_session)))" for i
  proof -
    from select_script_rule [of i demo_session 0 0 JNull demo_inputs] that
    have "select_script demo_session demo_inputs i =
      Inr (map (\<lambda>pos. GrShow (pos = 0)) [0 ..< length demo_inputs - 1]
           @ [TextboxUpdate ''{}'' False])"
      by blast
    then show ?thesis unfolding u by simp
  qed
  have "select_script demo_session demo_inputs 0 =
     Inr [GrShow True, GrShow False, GrShow False, GrShow False, TextboxUpdate ''{}'' False]"
    by (rule none) simp
  moreover have "select_script demo_session demo_inputs 5 =
     Inr [GrShow True, GrShow False, GrShow False, GrShow False, TextboxUpdate ''{}'' False]"
    by (rule none) (simp add: n)
  moreover have "select_script demo_session demo_inputs (- 1) =
     Inr [GrShow True, GrShow False, GrShow False, GrShow False, TextboxUpdate ''{}'' False]"
    by (rule none) simp
  ultimately show ?thesis using r1 r2 by blast
qed

section \<open>Properties of dispatch\<close>

lemma py_index_in_range:
  "0 \<le> j \<Longrightarrow> j < int (length xs) \<Longrightarrow> py_index xs j = Inr (nat j)"
  by (simp add: py_index_def Let_def)

lemma py_index_negative:
  "- int (length xs) \<le> j \<Longrightarrow> j < 0 \<Longrightarrow> py_index xs j = Inr (nat (int (length xs) + j))"
  by (simp add: py_index_def Let_def)

lemma py_index_out_of_range:
  "int (length xs) \<le> j \<or> j < - int (length xs) \<Longrightarrow> py_index xs j = Inl IndexError"
  by (auto simp: py_index_def Let_def)

lemma sum_list_take_le:
  "sum_list (map f (take n xs)) \<le> (sum_list (map f xs) :: nat)"
proof -
  have "sum_list (map f xs) = sum_list (map f (take n xs)) + sum_list (map f (drop n xs))"
    by (metis append_take_drop_id map_append sum_list.append)
  then show ?thesis by simp
qed

text \<open>
  Claim C2. For a session built by \<open>setup_ui\<close> and an argument vector as long as the
  one \<open>setup_ui\<close> returned: with selector 0, dispatch returns \<open>None\<close> and changes
  nothing; with selector \<open>i\<close>, \<open>1 \<le> i \<le> N\<close>, it calls \<open>run\<close> of the \<open>i\<close>-th instance once,
  with the processing context and the \<open>c\<^sub>i\<close> arguments of the instance's range, and clears
  the progress counter once when \<open>run\<close> returns, and not when it raises.
\<close>

theorem dispatch_rule:
  assumes "setup_ui self0 b g = (Inr inputs, self, g')" and "length args = length inputs"
  shows "(args ! 0 = IntV 0 \<longrightarrow> runner_run self p args h = (Inr None, h))
       \<and> (\<forall>i. args ! 0 = IntV i \<and> 1 \<le> i \<and> i \<le> int (length (scripts self)) \<longrightarrow>
            (let k = nat (i - 1);
                 s = scripts self ! k;
                 a = 1 + sum_list (map (n_controls b) (take k (scripts self)));
                 script_args = take (n_controls b s) (drop a args);
                 h1 = h\<lparr>run_calls := run_calls h @ [(k, p, script_args)]\<rparr>
             in args_from s = Some a \<and> args_to s = Some (a + n_controls b s)
              \<and> length script_args = n_controls b s
              \<and> runner_run self p args h =
                  (case run (methods (cls s)) p script_args of
                     Inl exc \<Rightarrow> (Inl exc, h1)
                   | Inr processed \<Rightarrow> (Inr processed, h1\<lparr>tqdm_clears := Suc (tqdm_clears h)\<rparr>))))"
proof -
  note L = setup_ui_layout [OF assms(1)]
  from L(2) assms(2) obtain x rest where args: "args = x # rest" by (cases args) auto
  have zero: "args ! 0 = IntV 0 \<longrightarrow> runner_run self p args h = (Inr None, h)"
    by (simp add: args runner_run_def)
  have sel: "let k = nat (i - 1);
                 s = scripts self ! k;
                 a = 1 + sum_list (map (n_controls b) (take k (scripts self)));
                 script_args = take (n_controls b s) (drop a args);
                 h1 = h\<lparr>run_calls := run_calls h @ [(k, p, script_args)]\<rparr>
             in args_from s = Some a \<and> args_to s = Some (a + n_controls b s)
              \<and> length script_args = n_controls b s
              \<and> runner_run self p args h =
                  (case run (methods (cls s)) p script_args of
                     Inl exc \<Rightarrow> (Inl exc, h1)
                   | Inr processed \<Rightarrow> (Inr processed, h1\<lparr>tqdm_clears := Suc (tqdm_clears h)\<rparr>))"
    if i: "args ! 0 = IntV i" "1 \<le> i" "i \<le> int (length (scripts self))" for i
  proof -
    define k where "k = nat (i - 1)"
    define s where "s = scripts self ! k"
    define a where "a = 1 + sum_list (map (n_controls b) (take k (scripts self)))"
    from i have k: "k < length (scripts self)" by (simp add: k_def)
    from L(3) k have r: "args_from s = Some a" "args_to s = Some (a + n_controls b s)"
      by (simp_all add: s_def a_def)
    from k have "take (Suc k) (scripts self) = take k (scripts self) @ [s]"
      by (simp add: take_Suc_conv_app_nth s_def)
    then have "a + n_controls b s = 1 + sum_list (map (n_controls b) (take (Suc k) (scripts self)))"
      by (simp add: a_def)
    also have "\<dots> \<le> 1 + sum_list (map (n_controls b) (scripts self))"
      using sum_list_take_le [of "n_controls b" "Suc k" "scripts self"] by simp
    finally have "a + n_controls b s \<le> length args" using L(2) assms(2) by simp
    then have len: "length (take (n_controls b s) (drop a args)) = n_controls b s" by simp
    have idx: "py_index (scripts self) (i - 1) = Inr k"
      using i py_index_in_range [of "i - 1" "scripts self"] by (simp add: k_def)
    have sl: "py_slice args (args_from s) (args_to s) = take (n_controls b s) (drop a args)"
      by (simp add: py_slice_def r)
    from i(1) i(2) args have x: "x = IntV i" "i \<noteq> 0" by simp_all
    have run: "runner_run self p args h =
        (case run (methods (cls s)) p (take (n_controls b s) (drop a args)) of
           Inl exc \<Rightarrow> (Inl exc, h\<lparr>run_calls := run_calls h @ [(k, p, take (n_controls b s) (drop a args))]\<rparr>)
         | Inr processed \<Rightarrow> (Inr processed,
             h\<lparr>run_calls := run_calls h @ [(k, p, take (n_controls b s) (drop a args))],
               tqdm_clears := Suc (tqdm_clears h)\<rparr>))"
      unfolding runner_run_def args x
      using idx sl by (simp add: Let_def s_def [symmetric] args x split: sum.splits)
    show ?thesis
      unfolding Let_def k_def [symmetric] s_def [symmetric] a_def [symmetric]
      using r len run by simp
  qed
  from zero sel show ?thesis by blast
qed

theorem dispatch_rule_witness:
  "setup_ui new_runner True demo_globals =
     (Inr demo_inputs, demo_session, demo_globals\<lparr>stderr := demo_stderr\<rparr>)
   \<and> length (demo_args 0) = length demo_inputs
   \<and> runner_run demo_session ''p'' (demo_args 0) demo_host = (Inr None, demo_host)
   \<and> runner_run demo_session ''p'' (demo_args 1) demo_host =
       (Inr (Some ''p processed''),
        \<lparr> run_calls = [(0, ''p'', [StrV ''20'', StrV ''7.5''])], tqdm_clears = 1 \<rparr>)
   \<and> runner_run demo_session ''p'' (demo_args 4) demo_host =
       (Inl NotImplementedError, \<lparr> run_calls = [(3, ''p'', [])], tqdm_clears = 0 \<rparr>)"
proof -
  have l: "length (demo_args i) = length demo_inputs" for i
    by (simp add: demo_args_def demo_inputs_def)
  have n: "map (n_controls True) (scripts demo_session) = [2, 1, 0, 0]"
    by (simp add: demo_session_def n_controls_def demo_simps demo_controls_def)
  have r0: "runner_run demo_session ''p'' (demo_args 0) demo_host = (Inr None, demo_host)"
    using dispatch_rule [OF demo_setup_ui l, of 0 "''p''" demo_host, THEN conjunct1]
    by (simp add: demo_args_def)
  have r1: "runner_run demo_session ''p'' (demo_args 1) demo_host =
       (Inr (Some ''p processed''),
        \<lparr> run_calls = [(0, ''p'', [StrV ''20'', StrV ''7.5''])], tqdm_clears = 1 \<rparr>)"
    using dispatch_rule [OF demo_setup_ui l, of 1 "''p''" demo_host, THEN conjunct2, THEN spec, of 1]
    by (simp add: demo_args_def demo_host_def demo_session_def n_controls_def demo_simps
        demo_controls_def Let_def)
  have r4: "runner_run demo_session ''p'' (demo_args 4) demo_host =
       (Inl NotImplementedError, \<lparr> run_calls = [(3, ''p'', [])], tqdm_clears = 0 \<rparr>)"
    using dispatch_rule [OF demo_setup_ui l, of 4 "''p''" demo_host, THEN conjunct2, THEN spec, of 4]
    by (simp add: demo_args_def demo_host_def demo_session_def n_controls_def demo_simps
        demo_controls_def Let_def)
  from demo_setup_ui l r0 r1 r4 show ?thesis by simp
qed

text \<open>
  Claim C5 does not hold for a negative selector: \<open>self.scripts[script_index-1]\<close>
  counts a negative index from the end, so selector \<open>-3\<close> on a session of four instances
  runs the first one.
\<close>

theorem negative_selector_counterexample:
  "(- 3 :: int) \<noteq> 0
   \<and> \<not> (1 \<le> (- 3 :: int) \<and> - 3 \<le> int (length (scripts demo_session)))
   \<and> runner_run demo_session ''p'' (demo_args (- 3)) demo_host =
       (Inr (Some ''p processed''),
        \<lparr> run_calls = [(0, ''p'', [StrV ''20'', StrV ''7.5''])], tqdm_clears = 1 \<rparr>)"
  by (simp add: runner_run_def py_index_def py_slice_def demo_args_def demo_host_def
      demo_session_def demo_simps Let_def)

text \<open>
  Claim C5, amended. A selector \<open>i\<close> other than 0 with \<open>i > N\<close> or \<open>i \<le> -N\<close> makes dispatch
  raise IndexError with no call of \<open>run\<close>. A selector with \<open>-N < i < 0\<close> runs the instance
  at position \<open>N + i - 1\<close>.
\<close>

theorem selector_out_of_range:
  "(i \<noteq> 0 \<and> (int (length (scripts self)) < i \<or> i \<le> - int (length (scripts self))) \<longrightarrow>
      runner_run self p (IntV i # rest) h = (Inl IndexError, h))
   \<and> (- int (length (scripts self)) < i \<and> i < 0 \<longrightarrow>
      (let k = nat (int (length (scripts self)) + i - 1);
           s = scripts self ! k;
           script_args = py_slice (IntV i # rest) (args_from s) (args_to s);
           h1 = h\<lparr>run_calls := run_calls h @ [(k, p, script_args)]\<rparr>
       in runner_run self p (IntV i # rest) h =
            (case run (methods (cls s)) p script_args of
               Inl exc \<Rightarrow> (Inl exc, h1)
             | Inr processed \<Rightarrow> (Inr processed, h1\<lparr>tqdm_clears := Suc (tqdm_clears h)\<rparr>))))"
proof (intro conjI impI)
  assume a: "i \<noteq> 0 \<and> (int (length (scripts self)) < i \<or> i \<le> - int (length (scripts self)))"
  then have "py_index (scripts self) (i - 1) = Inl IndexError"
    by (intro py_index_out_of_range) auto
  with a show "runner_run self p (IntV i # rest) h = (Inl IndexError, h)"
    by (simp add: runner_run_def)
next
  assume a: "- int (length (scripts self)) < i \<and> i < 0"
  then have "py_index (scripts self) (i - 1) = Inr (nat (int (length (scripts self)) + (i - 1)))"
    by (intro py_index_negative) auto
  moreover have "int (length (scripts self)) + (i - 1) = int (length (scripts self)) + i - 1"
    by simp
  ultimately have "py_index (scripts self) (i - 1) = Inr (nat (int (length (scripts self)) + i - 1))"
    by simp
  with a show "let k = nat (int (length (scripts self)) + i - 1);
           s = scripts self ! k;
           script_args = py_slice (IntV i # rest) (args_from s) (args_to s);
           h1 = h\<lparr>run_calls := run_calls h @ [(k, p, script_args)]\<rparr>
       in runner_run self p (IntV i # rest) h =
            (case run (methods (cls s)) p script_args of
               Inl exc \<Rightarrow> (Inl exc, h1)
             | Inr processed \<Rightarrow> (Inr processed, h1\<lparr>tqdm_clears := Suc (tqdm_clears h)\<rparr>))"
    by (simp add: runner_run_def Let_def split: sum.splits)
qed

theorem selector_out_of_range_witness:
  "runner_run demo_session ''p'' (demo_args 5) demo_host = (Inl IndexError, demo_host)
   \<and> runner_run demo_session ''p'' (demo_args (- 4)) demo_host = (Inl IndexError, demo_host)
   \<and> runner_run demo_session ''p'' (demo_args (- 1)) demo_host =
       (Inr None, \<lparr> run_calls = [(2, ''p'', [])], tqdm_clears = 1 \<rparr>)"
proof -
  have n: "int (length (scripts demo_session)) = 4" by (simp add: demo_session_def)
  have r5: "runner_run demo_session ''p'' (demo_args 5) demo_host = (Inl IndexError, demo_host)"
    using selector_out_of_range [of 5 demo_session "''p''" _ demo_host, THEN conjunct1]
    by (simp add: n demo_args_def)
  have r4: "runner_run demo_session ''p'' (demo_args (- 4)) demo_host = (Inl IndexError, demo_host)"
    using selector_out_of_range [of "- 4" demo_session "''p''" _ demo_host, THEN conjunct1]
    by (simp add: n demo_args_def)
  have r1: "runner_run demo_session ''p'' (demo_args (- 1)) demo_host =
       (Inr None, \<lparr> run_calls = [(2, ''p'', [])], tqdm_clears = 1 \<rparr>)"
    using selector_out_of_range [of "- 1" demo_session "''p''" _ demo_host, THEN conjunct2]
    by (simp add: n demo_args_def demo_host_def demo_session_def demo_simps py_slice_def Let_def)
  from r5 r4 r1 show ?thesis by simp
qed

end
